theory Spec2Isabelle
  imports Complex_Main "HOL-Library.Sublist" "HOL-Library.Multiset" "HOL-Library.Log_Nat"
begin

section \<open>Stock correlation and impact analysis engine\<close>

text \<open>
  A shallow embedding of \<^verbatim>\<open>StockCorrelationEngine\<close> (correlation_engine.py).
  The libraries the engine calls (yfinance, pandas' \<^verbatim>\<open>Series.corr\<close>, the thread pool,
  the clock) are parameters of the model, collected in the record \<open>env\<close>. Python
  exceptions are values: a function whose body can raise returns \<open>pyexn + 'a\<close>, and
  each \<^verbatim>\<open>try\<close>/\<^verbatim>\<open>except Exception\<close> of the source is a case distinction on that sum.
\<close>

subsection \<open>Python values\<close>

text \<open>
  A float is a double: a real number, an infinity or NaN. Comparisons are exact and
  NaN compares false with everything, also with itself. \<open>dbl\<close> rounds a real number
  to the nearest double, a tie going to the even one; overflow, subnormal numbers and
  the sign of zero are not modelled. A decimal literal of the source denotes the
  nearest double: \<^verbatim>\<open>0.6\<close> is \<open>dbl (6 / 10)\<close>, a little less than six tenths.

  The operations \<open>fadd\<close>, \<open>fsub\<close>, \<open>fmul\<close> and \<open>fdiv\<close> give the exact result for two
  numbers and follow IEEE 754 on infinities and NaN; \<open>dadd\<close>, \<open>dmul\<close> and \<open>ddiv\<close>
  round that result to a double, as the machine does. The model uses the rounded
  operations wherever a rounded value is reported or compared (\<^verbatim>\<open>round\<close>,
  \<^verbatim>\<open>np.mean\<close>, the impact score), and the exact ones for the daily returns: these
  reach only \<^verbatim>\<open>Series.corr\<close>, a parameter of the model, and the test for NaN, which
  rounding does not change.
\<close>

datatype pyfloat = Fl real | PInf | NInf | NaN

text \<open>The nearest integer, a tie going to the even one (\<^verbatim>\<open>rint\<close>).\<close>

definition rint :: "real \<Rightarrow> int" where
  "rint x =
     (let f = \<lfloor>x\<rfloor>; d = x - of_int f
      in if d < 1 / 2 then f else if 1 / 2 < d then f + 1
         else if even f then f else f + 1)"

text \<open>
  The nearest double to a real number: with \<open>2\<^sup>e \<le> |x| < 2\<^sup>e\<^sup>+\<^sup>1\<close> the doubles around
  \<open>x\<close> are the multiples of \<open>2\<^sup>e\<^sup>-\<^sup>5\<^sup>2\<close>.
\<close>

definition pow2 :: "int \<Rightarrow> real" where
  "pow2 k = (if 0 \<le> k then 2 ^ nat k else 1 / 2 ^ nat (- k))"

definition expo :: "real \<Rightarrow> int" where
  "expo x =
     (if 1 \<le> \<bar>x\<bar> then bitlen \<lfloor>\<bar>x\<bar>\<rfloor> - 1 else - bitlen (\<lceil>1 / \<bar>x\<bar>\<rceil> - 1))"

definition ulp :: "real \<Rightarrow> real" where
  \<comment> \<open>\<open>4503599627370496 = 2\<^sup>5\<^sup>2\<close>\<close>
  "ulp x = pow2 (expo x) / 4503599627370496"

definition dbl :: "real \<Rightarrow> real" where
  "dbl x = (if x = 0 then 0 else let u = ulp x in of_int (rint (x / u)) * u)"

text \<open>A value that enters a numpy computation is taken as a double.\<close>

fun to_double :: "pyfloat \<Rightarrow> pyfloat" where
  "to_double (Fl x) = Fl (dbl x)"
| "to_double PInf = PInf"
| "to_double NInf = NInf"
| "to_double NaN = NaN"

datatype pyexn = PyException string

fun fless :: "pyfloat \<Rightarrow> pyfloat \<Rightarrow> bool" where
  "fless (Fl x) (Fl y) = (x < y)"
| "fless (Fl x) PInf = True"
| "fless (Fl x) NInf = False"
| "fless PInf b = False"
| "fless NInf (Fl y) = True"
| "fless NInf PInf = True"
| "fless NInf NInf = False"
| "fless a NaN = False"
| "fless NaN b = False"

definition feq :: "pyfloat \<Rightarrow> pyfloat \<Rightarrow> bool" where
  "feq a b = (a \<noteq> NaN \<and> a = b)"

definition fne :: "pyfloat \<Rightarrow> pyfloat \<Rightarrow> bool" where
  "fne a b = (\<not> feq a b)"

definition fgt :: "pyfloat \<Rightarrow> pyfloat \<Rightarrow> bool" where
  "fgt a b = fless b a"

definition fge :: "pyfloat \<Rightarrow> pyfloat \<Rightarrow> bool" where
  "fge a b = (fless b a \<or> feq a b)"

fun fabs :: "pyfloat \<Rightarrow> pyfloat" where
  "fabs (Fl x) = Fl \<bar>x\<bar>"
| "fabs PInf = PInf"
| "fabs NInf = PInf"
| "fabs NaN = NaN"

fun fneg :: "pyfloat \<Rightarrow> pyfloat" where
  "fneg (Fl x) = Fl (- x)"
| "fneg PInf = NInf"
| "fneg NInf = PInf"
| "fneg NaN = NaN"

fun fadd :: "pyfloat \<Rightarrow> pyfloat \<Rightarrow> pyfloat" where
  "fadd (Fl x) (Fl y) = Fl (x + y)"
| "fadd NaN b = NaN"
| "fadd a NaN = NaN"
| "fadd PInf NInf = NaN"
| "fadd NInf PInf = NaN"
| "fadd PInf b = PInf"
| "fadd NInf b = NInf"
| "fadd a PInf = PInf"
| "fadd a NInf = NInf"

definition fsub :: "pyfloat \<Rightarrow> pyfloat \<Rightarrow> pyfloat" where
  "fsub a b = fadd a (fneg b)"

text \<open>The infinity with the sign of \<open>x\<close>, for \<open>x \<noteq> 0\<close>.\<close>

definition inf_of_sign :: "real \<Rightarrow> pyfloat" where
  "inf_of_sign x = (if 0 < x then PInf else NInf)"

fun fmul :: "pyfloat \<Rightarrow> pyfloat \<Rightarrow> pyfloat" where
  "fmul (Fl x) (Fl y) = Fl (x * y)"
| "fmul NaN b = NaN"
| "fmul a NaN = NaN"
| "fmul (Fl x) PInf = (if x = 0 then NaN else inf_of_sign x)"
| "fmul (Fl x) NInf = (if x = 0 then NaN else inf_of_sign (- x))"
| "fmul PInf (Fl y) = (if y = 0 then NaN else inf_of_sign y)"
| "fmul NInf (Fl y) = (if y = 0 then NaN else inf_of_sign (- y))"
| "fmul PInf PInf = PInf"
| "fmul PInf NInf = NInf"
| "fmul NInf PInf = NInf"
| "fmul NInf NInf = PInf"

fun fdiv :: "pyfloat \<Rightarrow> pyfloat \<Rightarrow> pyfloat" where
  "fdiv (Fl x) (Fl y) =
     (if y \<noteq> 0 then Fl (x / y) else if x = 0 then NaN else inf_of_sign x)"
| "fdiv NaN b = NaN"
| "fdiv a NaN = NaN"
| "fdiv (Fl x) PInf = Fl 0"
| "fdiv (Fl x) NInf = Fl 0"
| "fdiv PInf (Fl y) = (if 0 \<le> y then PInf else NInf)"
| "fdiv NInf (Fl y) = (if 0 \<le> y then NInf else PInf)"
| "fdiv PInf b = NaN"
| "fdiv NInf b = NaN"

definition dadd :: "pyfloat \<Rightarrow> pyfloat \<Rightarrow> pyfloat" where
  "dadd a b = to_double (fadd a b)"

definition dmul :: "pyfloat \<Rightarrow> pyfloat \<Rightarrow> pyfloat" where
  "dmul a b = to_double (fmul a b)"

definition ddiv :: "pyfloat \<Rightarrow> pyfloat \<Rightarrow> pyfloat" where
  "ddiv a b = to_double (fdiv a b)"

text \<open>
  \<^verbatim>\<open>round(x, 3)\<close> on a numpy float: the double \<open>x\<close> is multiplied by \<open>1000.0\<close>,
  the product is rounded to an integer by \<^verbatim>\<open>rint\<close> and divided by \<open>1000.0\<close>, each
  step in double arithmetic; infinities and NaN are returned unchanged.
\<close>

fun round3 :: "pyfloat \<Rightarrow> pyfloat" where
  "round3 (Fl x) = Fl (dbl (of_int (rint (dbl (dbl x * 1000))) / 1000))"
| "round3 PInf = PInf"
| "round3 NInf = NInf"
| "round3 NaN = NaN"

text \<open>
  The two kinds of object the candidate loop compares: a ticker (a \<^verbatim>\<open>str\<close>) and a
  pair \<^verbatim>\<open>(stock, category)\<close> (a \<^verbatim>\<open>tuple\<close>). \<^verbatim>\<open>x in xs\<close> is true when some
  element of the list equals \<open>x\<close>; a \<^verbatim>\<open>str\<close> never equals a \<^verbatim>\<open>tuple\<close>.
\<close>

datatype pyobj = Str string | Tuple2 string string

definition py_in :: "pyobj \<Rightarrow> pyobj list \<Rightarrow> bool" where
  "py_in x xs = (x \<in> set xs)"

definition endswith :: "string \<Rightarrow> string \<Rightarrow> bool" where
  "endswith s suf =
     (length suf \<le> length s \<and> drop (length s - length suf) s = suf)"

text \<open>\<^verbatim>\<open>d.get(k, [])\<close> on a dictionary written as an association list.\<close>

definition dict_get :: "(string \<times> 'a list) list \<Rightarrow> string \<Rightarrow> 'a list" where
  "dict_get d k = (case map_of d k of None \<Rightarrow> [] | Some v \<Rightarrow> v)"

subsection \<open>The sector catalogue\<close>

definition sector_mapping :: "(string \<times> string list) list" where
  "sector_mapping =
    [(''Technology'', [''AAPL'', ''MSFT'', ''GOOGL'', ''META'', ''NVDA'', ''CRM'', ''ORCL'', ''ADBE'', ''INTC'', ''AMD'']),
     (''Financial Services'', [''JPM'', ''BAC'', ''WFC'', ''GS'', ''MS'', ''C'', ''USB'', ''PNC'', ''TFC'', ''COF'']),
     (''Healthcare'', [''JNJ'', ''PFE'', ''UNH'', ''ABBV'', ''MRK'', ''TMO'', ''ABT'', ''DHR'', ''BMY'', ''AMGN'']),
     (''Consumer Cyclical'', [''AMZN'', ''TSLA'', ''HD'', ''MCD'', ''DIS'', ''NKE'', ''SBUX'', ''LOW'', ''TJX'', ''BKNG'']),
     (''Energy'', [''XOM'', ''CVX'', ''COP'', ''EOG'', ''SLB'', ''PSX'', ''VLO'', ''MPC'', ''OXY'', ''HAL'']),
     (''Industrials'', [''BA'', ''CAT'', ''GE'', ''HON'', ''UNP'', ''LMT'', ''MMM'', ''FDX'', ''UPS'', ''RTX'']),
     (''Basic Materials'', [''LIN'', ''APD'', ''ECL'', ''DD'', ''DOW'', ''FCX'', ''NEM'', ''VMC'', ''MLM'', ''PPG'']),
     (''Real Estate'', [''AMT'', ''PLD'', ''CCI'', ''EQIX'', ''PSA'', ''SPG'', ''O'', ''WELL'', ''DLR'', ''EXR'']),
     (''Utilities'', [''NEE'', ''DUK'', ''SO'', ''AEP'', ''EXC'', ''XEL'', ''SRE'', ''D'', ''PEG'', ''PCG'']),
     (''Consumer Defensive'', [''PG'', ''KO'', ''PEP'', ''WMT'', ''COST'', ''CL'', ''KMB'', ''GIS'', ''K'', ''CPB''])]"

definition indian_sectors :: "(string \<times> string list) list" where
  "indian_sectors =
    [(''Technology'', [''TCS.NS'', ''INFY.NS'', ''WIPRO.NS'', ''HCLTECH.NS'', ''TECHM.NS'', ''LTI.NS'', ''MINDTREE.NS'']),
     (''Financial Services'', [''HDFCBANK.NS'', ''ICICIBANK.NS'', ''SBIN.NS'', ''AXISBANK.NS'', ''KOTAKBANK.NS'', ''INDUSINDBK.NS'']),
     (''Energy'', [''RELIANCE.NS'', ''ONGC.NS'', ''IOC.NS'', ''BPCL.NS'', ''HINDPETRO.NS'', ''GAIL.NS'']),
     (''Consumer Cyclical'', [''MARUTI.NS'', ''BAJAJ-AUTO.NS'', ''M&M.NS'', ''EICHERMOT.NS'', ''HEROMOTOCO.NS'']),
     (''Healthcare'', [''SUNPHARMA.NS'', ''DRREDDY.NS'', ''CIPLA.NS'', ''LUPIN.NS'', ''BIOCON.NS'', ''CADILAHC.NS'']),
     (''Industrials'', [''LT.NS'', ''ULTRACEMCO.NS'', ''ADANIENT.NS'', ''ADANIPORTS.NS'', ''TATASTEEL.NS'']),
     (''Consumer Defensive'', [''HINDUUNILV.NS'', ''ITC.NS'', ''NESTLEIND.NS'', ''GODREJCP.NS'', ''DABUR.NS''])]"

definition find_sector_peers :: "string \<Rightarrow> string \<Rightarrow> string list" where
  "find_sector_peers ticker sector =
     (let sector_stocks =
            (if endswith ticker ''.NS'' \<or> endswith ticker ''.BO''
             then dict_get indian_sectors sector
             else dict_get sector_mapping sector);
          peers = filter (\<lambda>stock. stock \<noteq> ticker) sector_stocks
      in take 8 peers)"

text \<open>
  The dictionary \<^verbatim>\<open>relationships\<close> keeps its keys in the order in which the literal
  lists them; the three assignments replace the values in place.
\<close>

definition get_related_stocks :: "string \<Rightarrow> string \<Rightarrow> string \<Rightarrow> (string \<times> string list) list" where
  "get_related_stocks ticker sector industry =
     (let sector_peers = find_sector_peers ticker sector
      in [(''sector_peers'', take 5 sector_peers),
          (''industry_peers'',
             if 2 < length sector_peers then take 4 (drop 2 sector_peers) else sector_peers),
          (''competitors'', take 4 sector_peers)])"

subsection \<open>The candidate list\<close>

text \<open>
  The loop that fills \<^verbatim>\<open>all_related\<close>. The list holds pairs, and the test
  \<^verbatim>\<open>stock not in all_related\<close> looks for the ticker itself among them.
\<close>

definition as_tuples :: "(string \<times> string) list \<Rightarrow> pyobj list" where
  "as_tuples ps = map (\<lambda>(stock, category). Tuple2 stock category) ps"

fun add_stocks :: "string \<Rightarrow> string list \<Rightarrow> (string \<times> string) list \<Rightarrow> (string \<times> string) list" where
  "add_stocks category [] all_related = all_related"
| "add_stocks category (stock # stocks) all_related =
     add_stocks category stocks
       (if \<not> py_in (Str stock) (as_tuples all_related)
        then all_related @ [(stock, category)] else all_related)"

fun add_categories :: "(string \<times> string list) list \<Rightarrow> (string \<times> string) list \<Rightarrow> (string \<times> string) list" where
  "add_categories [] all_related = all_related"
| "add_categories ((category, stocks) # items) all_related =
     add_categories items (add_stocks category stocks all_related)"

definition all_related :: "string \<Rightarrow> string \<Rightarrow> (string \<times> string) list" where
  "all_related primary_ticker sector =
     add_categories (get_related_stocks primary_ticker sector []) []"

subsection \<open>The environment\<close>

text \<open>
  A price history is the \<^verbatim>\<open>Close\<close> column of the data frame yfinance returns: one
  row per trading day, indexed by the date (a day number). The provider's contract is
  that no date occurs twice.
\<close>

type_synonym series = "(nat \<times> pyfloat) list"

record env =
  history :: "string \<Rightarrow> string \<Rightarrow> pyexn + series"
    \<comment> \<open>\<^verbatim>\<open>yf.Ticker(ticker).history(period=period)\<close>: the frame, or the exception raised\<close>
  series_corr :: "series \<Rightarrow> series \<Rightarrow> pyexn + pyfloat"
    \<comment> \<open>\<^verbatim>\<open>returns1.corr(returns2)\<close>: Pearson's coefficient, or the exception raised\<close>
  submit_fault :: "nat \<Rightarrow> pyexn option"
    \<comment> \<open>the exception \<^verbatim>\<open>executor.submit\<close> raises at its i-th call, if any\<close>
  timed_out :: "nat \<Rightarrow> bool"
    \<comment> \<open>whether \<^verbatim>\<open>future.result(timeout=10)\<close> of the i-th future raises \<^verbatim>\<open>TimeoutError\<close>\<close>
  nan_order :: "pyfloat list \<Rightarrow> nat list"
    \<comment> \<open>how \<^verbatim>\<open>list.sort\<close> arranges a list with a NaN among its keys: for the keys in
        list order, the positions of the elements in their final order\<close>
  now :: string
    \<comment> \<open>\<^verbatim>\<open>datetime.now().isoformat()\<close>\<close>

subsection \<open>Pairwise correlation\<close>

definition get_stock_price_data :: "env \<Rightarrow> string \<Rightarrow> string \<Rightarrow> series option" where
  "get_stock_price_data e ticker period =
     (case history e ticker period of
        Inl ex \<Rightarrow> None
      | Inr data \<Rightarrow> if data = [] then None else Some data)"

text \<open>
  \<^verbatim>\<open>pd.DataFrame({'stock1': ..., 'stock2': ...}).dropna()\<close>: the two columns are
  aligned on the date, a date missing on one side gives NaN there, and
  \<^verbatim>\<open>dropna\<close> removes every row holding a NaN.
\<close>

fun combined_data :: "series \<Rightarrow> series \<Rightarrow> (nat \<times> pyfloat \<times> pyfloat) list" where
  "combined_data [] data2 = []"
| "combined_data ((t, a) # data1) data2 =
     (case map_of data2 t of
        None \<Rightarrow> combined_data data1 data2
      | Some b \<Rightarrow>
          if a \<noteq> NaN \<and> b \<noteq> NaN then (t, a, b) # combined_data data1 data2
          else combined_data data1 data2)"

definition stock1 :: "(nat \<times> pyfloat \<times> pyfloat) list \<Rightarrow> series" where
  "stock1 rows = map (\<lambda>(t, a, b). (t, a)) rows"

definition stock2 :: "(nat \<times> pyfloat \<times> pyfloat) list \<Rightarrow> series" where
  "stock2 rows = map (\<lambda>(t, a, b). (t, b)) rows"

text \<open>
  \<^verbatim>\<open>pct_change\<close>: NaN in the first row, then \<open>x\<^sub>i / x\<^sub>i\<^sub>-\<^sub>1 - 1\<close>.
\<close>

fun pct_from :: "pyfloat \<Rightarrow> series \<Rightarrow> series" where
  "pct_from prev [] = []"
| "pct_from prev ((t, a) # rest) = (t, fsub (fdiv a prev) (Fl 1)) # pct_from a rest"

fun pct_change :: "series \<Rightarrow> series" where
  "pct_change [] = []"
| "pct_change ((t, a) # rest) = (t, NaN) # pct_from a rest"

definition dropna :: "series \<Rightarrow> series" where
  "dropna xs = filter (\<lambda>(t, v). v \<noteq> NaN) xs"


text \<open>
  The dictionary \<^verbatim>\<open>calculate_correlation\<close> returns. A key the dictionary does not
  hold is \<open>None\<close>.
\<close>

record corr_result =
  correlation :: pyfloat
  strength :: string
  direction :: "string option"
  data_points :: "nat option"
  p_value :: "pyfloat option"

definition sentinel :: "string \<Rightarrow> corr_result" where
  "sentinel label =
     \<lparr>correlation = Fl 0, strength = label, direction = None, data_points = None,
      p_value = Some (Fl 1)\<rparr>"

definition strength_of :: "pyfloat \<Rightarrow> string" where
  "strength_of corr =
     (let abs_corr = fabs corr
      in if fge abs_corr (Fl (dbl (8 / 10))) then ''Very Strong''
         else if fge abs_corr (Fl (dbl (6 / 10))) then ''Strong''
         else if fge abs_corr (Fl (dbl (4 / 10))) then ''Moderate''
         else if fge abs_corr (Fl (dbl (2 / 10))) then ''Weak''
         else ''Very Weak'')"

definition direction_of :: "pyfloat \<Rightarrow> string" where
  "direction_of corr = (if fgt corr (Fl 0) then ''Positive'' else ''Negative'')"

text \<open>The body of the \<^verbatim>\<open>try\<close> block: \<open>Inl\<close> is an exception that leaves it.\<close>

definition calculate_correlation_body :: "env \<Rightarrow> string \<Rightarrow> string \<Rightarrow> string \<Rightarrow> pyexn + corr_result" where
  "calculate_correlation_body e ticker1 ticker2 period =
     (case (get_stock_price_data e ticker1 period, get_stock_price_data e ticker2 period) of
        (Some data1, Some data2) \<Rightarrow>
          (let combined = combined_data data1 data2
           in if length combined < 30 then Inr (sentinel ''Insufficient Data'')
              else
                (let returns1 = dropna (pct_change (stock1 combined));
                     returns2 = dropna (pct_change (stock2 combined))
                 in case series_corr e returns1 returns2 of
                      Inl ex \<Rightarrow> Inl ex
                    | Inr c \<Rightarrow>
                        Inr \<lparr>correlation = round3 c, strength = strength_of c,
                             direction = Some (direction_of c),
                             data_points = Some (length returns1), p_value = None\<rparr>))
      | _ \<Rightarrow> Inr (sentinel ''No Data''))"

definition calculate_correlation :: "env \<Rightarrow> string \<Rightarrow> string \<Rightarrow> string \<Rightarrow> corr_result" where
  "calculate_correlation e ticker1 ticker2 period =
     (case calculate_correlation_body e ticker1 ticker2 period of
        Inr r \<Rightarrow> r
      | Inl ex \<Rightarrow> sentinel ''Error'')"

subsection \<open>Impact analysis\<close>

record entry =
  ticker :: string
  relationship_type :: string
  entry_correlation :: pyfloat
  entry_strength :: string
  entry_direction :: string
  impact_score :: pyfloat

record summary_rec =
  total_analyzed :: nat
  average_correlation :: pyfloat
  max_correlation :: pyfloat
  market_influence :: string

record impact_result =
  primary_ticker :: string
  related_stocks :: "entry list"
  summary :: summary_rec
  timestamp :: "string option"
  error :: "pyexn option"

text \<open>The dictionary appended to \<^verbatim>\<open>correlation_results\<close> for one candidate.\<close>

definition make_entry :: "string \<Rightarrow> string \<Rightarrow> corr_result \<Rightarrow> entry" where
  "make_entry stock category correlation_data =
     \<lparr>ticker = stock, relationship_type = category,
      entry_correlation = correlation correlation_data,
      entry_strength = strength correlation_data,
      entry_direction =
        (case direction correlation_data of None \<Rightarrow> ''Neutral'' | Some d \<Rightarrow> d),
      impact_score = dmul (fabs (correlation correlation_data)) (Fl 100)\<rparr>"

text \<open>
  The submission loop. A future is the number of its \<^verbatim>\<open>submit\<close> call together with
  the candidate it belongs to.
\<close>

fun submit_all :: "env \<Rightarrow> nat \<Rightarrow> (string \<times> string) list \<Rightarrow> pyexn + (nat \<times> string \<times> string) list" where
  "submit_all e i [] = Inr []"
| "submit_all e i ((stock, category) # rest) =
     (case submit_fault e i of
        Some ex \<Rightarrow> Inl ex
      | None \<Rightarrow>
          (case submit_all e (Suc i) rest of
             Inl ex \<Rightarrow> Inl ex
           | Inr futures \<Rightarrow> Inr ((i, stock, category) # futures)))"

text \<open>
  The collection loop: a future that times out is skipped by the inner
  \<^verbatim>\<open>except\<close>, a result whose coefficient equals \<open>0.0\<close> is not appended.
\<close>

fun collect :: "env \<Rightarrow> string \<Rightarrow> (nat \<times> string \<times> string) list \<Rightarrow> entry list" where
  "collect e primary [] = []"
| "collect e primary ((i, stock, category) # futures) =
     (if timed_out e i then collect e primary futures
      else
        (let correlation_data = calculate_correlation e primary stock ''1y''
         in if fne (correlation correlation_data) (Fl 0)
            then make_entry stock category correlation_data # collect e primary futures
            else collect e primary futures))"

text \<open>
  \<^verbatim>\<open>list.sort(key=..., reverse=True)\<close>. When no key is NaN the comparisons \<^verbatim>\<open><\<close> are
  an order and the result is the stable sort into descending order of the key, written
  here as an insertion sort (\<open>sort_desc\<close>): elements with equal keys keep their order.
  With a NaN among the keys the comparisons are not an order; the list is then
  rearranged in a way that depends on the run detection and merging of CPython's
  sort, which is a parameter of the model (\<open>nan_order\<close>).
\<close>

definition abs_key :: "entry \<Rightarrow> pyfloat" where
  "abs_key x = fabs (entry_correlation x)"

fun insert_desc :: "entry \<Rightarrow> entry list \<Rightarrow> entry list" where
  "insert_desc x [] = [x]"
| "insert_desc x (y # ys) =
     (if fless (abs_key x) (abs_key y) then y # insert_desc x ys else x # y # ys)"

definition sort_desc :: "entry list \<Rightarrow> entry list" where
  "sort_desc xs = foldr insert_desc xs []"

text \<open>
  The elements of \<open>xs\<close> in the order of the positions \<open>idx\<close>, a rearrangement of
  \<open>0, \<dots>, length xs - 1\<close>.
\<close>

definition reorder :: "nat list \<Rightarrow> 'a list \<Rightarrow> 'a list" where
  "reorder idx xs = (if sort idx = [0..<length xs] then map (\<lambda>i. xs ! i) idx else xs)"

definition list_sort_desc :: "env \<Rightarrow> entry list \<Rightarrow> entry list" where
  "list_sort_desc e xs =
     (if list_all (\<lambda>x. abs_key x \<noteq> NaN) xs then sort_desc xs
      else reorder (nan_order e (map abs_key xs)) xs)"

text \<open>
  \<^verbatim>\<open>np.mean\<close> of a non-empty list: the list becomes an array of doubles, the sum
  starts from \<open>0.0\<close> and adds numpy's pairwise sum of the array, and the sum is
  divided by the length. The pairwise sum adds fewer than eight values one after the
  other; up to 128 values it keeps eight running sums, one for every eighth value,
  adds them as a balanced tree and then adds the values left over; a longer array is
  split in two.
\<close>

fun tree8 :: "pyfloat list \<Rightarrow> pyfloat" where
  "tree8 [r0, r1, r2, r3, r4, r5, r6, r7] =
     dadd (dadd (dadd r0 r1) (dadd r2 r3)) (dadd (dadd r4 r5) (dadd r6 r7))"
| "tree8 r = NaN"

function accumulate :: "pyfloat list \<Rightarrow> pyfloat list \<Rightarrow> pyfloat list \<times> pyfloat list" where
  "accumulate r a =
     (if length a < 8 then (r, a)
      else accumulate (map2 dadd r (take 8 a)) (drop 8 a))"
  by pat_completeness auto
termination
  by (relation "measure (\<lambda>(r, a). length a)") auto

function pairwise_sum :: "pyfloat list \<Rightarrow> pyfloat" where
  "pairwise_sum a =
     (if length a < 8 then foldl dadd (Fl 0) a
      else if length a \<le> 128 then
        (case accumulate (take 8 a) (drop 8 a) of (r, rest) \<Rightarrow> foldl dadd (tree8 r) rest)
      else
        dadd (pairwise_sum (take (length a div 2 - length a div 2 mod 8) a))
             (pairwise_sum (drop (length a div 2 - length a div 2 mod 8) a)))"
  by pat_completeness auto
termination
  by (relation "measure length") auto

definition np_mean :: "pyfloat list \<Rightarrow> pyfloat" where
  "np_mean xs =
     ddiv (dadd (Fl 0) (pairwise_sum (map to_double xs))) (Fl (real (length xs)))"

text \<open>The builtin \<^verbatim>\<open>max\<close>.\<close>

fun max_from :: "pyfloat \<Rightarrow> pyfloat list \<Rightarrow> pyfloat" where
  "max_from m [] = m"
| "max_from m (x # xs) = max_from (if fgt x m then x else m) xs"

definition py_max :: "pyfloat list \<Rightarrow> pyfloat" where
  "py_max xs = max_from (hd xs) (tl xs)"

definition influence_of :: "pyfloat \<Rightarrow> string" where
  "influence_of avg_correlation =
     (if fge avg_correlation (Fl (dbl (6 / 10))) then ''High''
      else if fge avg_correlation (Fl (dbl (4 / 10))) then ''Moderate''
      else ''Low'')"

definition summarize :: "entry list \<Rightarrow> summary_rec" where
  "summarize correlation_results =
     (if correlation_results \<noteq> [] then
        (let avg_correlation = np_mean (map abs_key correlation_results);
             max_correlation = py_max (map abs_key correlation_results)
         in \<lparr>total_analyzed = length correlation_results,
             average_correlation = round3 avg_correlation,
             max_correlation = round3 max_correlation,
             market_influence = influence_of avg_correlation\<rparr>)
      else
        \<lparr>total_analyzed = 0, average_correlation = Fl 0, max_correlation = Fl 0,
         market_influence = ''Unknown''\<rparr>)"

text \<open>The body of the outer \<^verbatim>\<open>try\<close> block of \<^verbatim>\<open>analyze_stock_impact\<close>.\<close>

definition analyze_body :: "env \<Rightarrow> string \<Rightarrow> string \<Rightarrow> pyexn + impact_result" where
  "analyze_body e primary sector =
     (case submit_all e 0 (all_related primary sector) of
        Inl ex \<Rightarrow> Inl ex
      | Inr futures \<Rightarrow>
          (let correlation_results = list_sort_desc e (collect e primary futures)
           in Inr \<lparr>primary_ticker = primary, related_stocks = correlation_results,
                   summary = summarize correlation_results,
                   timestamp = Some (now e), error = None\<rparr>))"

definition error_result :: "string \<Rightarrow> pyexn \<Rightarrow> impact_result" where
  "error_result primary ex =
     \<lparr>primary_ticker = primary, related_stocks = [],
      summary = \<lparr>total_analyzed = 0, average_correlation = Fl 0, max_correlation = Fl 0,
                 market_influence = ''Error''\<rparr>,
      timestamp = None, error = Some ex\<rparr>"

definition analyze_stock_impact :: "env \<Rightarrow> string \<Rightarrow> string \<Rightarrow> impact_result" where
  "analyze_stock_impact e primary sector =
     (case analyze_body e primary sector of
        Inr r \<Rightarrow> r
      | Inl ex \<Rightarrow> error_result primary ex)"

subsection \<open>Order and average\<close>


text \<open>
  The average of real numbers, computed exactly, and the absolute value of the
  coefficient of an entry as a real number (zero when it is not a number).
\<close>

definition exact_average :: "real list \<Rightarrow> real" where
  "exact_average xs = sum_list xs / real (length xs)"

fun is_number :: "pyfloat \<Rightarrow> bool" where
  "is_number (Fl x) = True"
| "is_number PInf = False"
| "is_number NInf = False"
| "is_number NaN = False"

fun number_of :: "pyfloat \<Rightarrow> real" where
  "number_of (Fl x) = x"
| "number_of PInf = 0"
| "number_of NInf = 0"
| "number_of NaN = 0"

definition magnitude :: "entry \<Rightarrow> real" where
  "magnitude x = \<bar>number_of (entry_correlation x)\<bar>"

text \<open>
  The relative error of one rounding, and a value \<open>v\<close> that lies within \<open>k\<close>
  roundings of \<open>s\<close>.
\<close>

definition eps :: real where
  "eps = 1 / 2 ^ 53"

definition rel_within :: "nat \<Rightarrow> real \<Rightarrow> real \<Rightarrow> bool" where
  "rel_within k v s = ((1 - eps) ^ k * s \<le> v \<and> v \<le> (1 + eps) ^ k * s)"

subsection \<open>Concrete environments\<close>

text \<open>
  Thirty trading days with the closes \<open>k, k + 1, \<dots>\<close>, and providers built on them.
\<close>

definition ramp :: "nat \<Rightarrow> series" where
  "ramp k = map (\<lambda>i. (i, Fl (real (i + k)))) [0..<30]"

definition first_value :: "series \<Rightarrow> pyfloat" where
  "first_value xs = (case xs of [] \<Rightarrow> NaN | (t, v) # rest \<Rightarrow> v)"

text \<open>Every ticker has the same thirty closes and every coefficient is one half.\<close>

definition env_half :: env where
  "env_half =
     \<lparr>history = (\<lambda>ticker period. Inr (ramp 1)),
      series_corr = (\<lambda>returns1 returns2. Inr (Fl (1 / 2))),
      submit_fault = (\<lambda>i. None), timed_out = (\<lambda>i. False),
      nan_order = (\<lambda>keys. [0..<length keys]),
      now = ''2024-05-01T09:30:00''\<rparr>"


text \<open>The price provider raises for every ticker.\<close>

definition env_down :: env where
  "env_down = env_half\<lparr>history := (\<lambda>ticker period. Inl (PyException ''connection refused''))\<rparr>"

text \<open>Enough prices, and a coefficient of exactly zero.\<close>

definition env_zero :: env where
  "env_zero = env_half\<lparr>series_corr := (\<lambda>returns1 returns2. Inr (Fl 0))\<rparr>"

text \<open>The computation of the coefficient raises.\<close>

definition env_broken :: env where
  "env_broken =
     env_half\<lparr>series_corr := (\<lambda>returns1 returns2. Inl (PyException ''unsupported operand''))\<rparr>"

text \<open>The thread pool refuses every task.\<close>

definition env_busy :: env where
  "env_busy =
     env_half\<lparr>submit_fault :=
       (\<lambda>i. Some (PyException ''cannot schedule new futures after interpreter shutdown''))\<rparr>"

text \<open>
  The closes of a ticker start at the length of its name, and the coefficient is the
  first return of the second series as a double, negated when that return is one
  third: tickers of three, four and five letters are reported with \<open>- 0.333\<close>,
  \<open>0.25\<close> and \<open>0.2\<close>. The third future times out.
\<close>

definition env_rank :: env where
  "env_rank =
     \<lparr>history = (\<lambda>ticker period. Inr (ramp (length ticker))),
      series_corr = (\<lambda>returns1 returns2.
         Inr (if first_value returns2 = Fl (1 / 3) then Fl (dbl (- 1 / 3))
              else to_double (first_value returns2))),
      submit_fault = (\<lambda>i. None), timed_out = (\<lambda>i. i = 2),
      nan_order = (\<lambda>keys. [0..<length keys]),
      now = ''2024-05-01T09:30:00''\<rparr>"


text \<open>Every coefficient is \<open>0.6\<close>, \<open>0.9\<close> or \<open>0.4\<close> (with six futures delivering).\<close>

definition env_six :: env where
  "env_six = env_half\<lparr>series_corr := (\<lambda>returns1 returns2. Inr (Fl (dbl (6 / 10))))\<rparr>"

definition env_nine :: env where
  "env_nine = env_half\<lparr>series_corr := (\<lambda>returns1 returns2. Inr (Fl (dbl (9 / 10))))\<rparr>"

definition env_four :: env where
  "env_four =
     env_half\<lparr>series_corr := (\<lambda>returns1 returns2. Inr (Fl (dbl (4 / 10)))),
               timed_out := (\<lambda>i. 6 \<le> i)\<rparr>"

section \<open>Auxiliary facts\<close>

subsection \<open>Floats\<close>


lemma fge_Fl: "fge (Fl x) (Fl y) = (y \<le> x)"
  by (auto simp: fge_def feq_def)

lemma fgt_Fl: "fgt (Fl x) (Fl y) = (y < x)"
  by (simp add: fgt_def)

lemma fne_Fl: "fne (Fl x) (Fl y) = (x \<noteq> y)"
  by (simp add: fne_def feq_def)





lemma fge_refl: "a \<noteq> NaN \<Longrightarrow> fge a a"
  by (simp add: fge_def feq_def)

lemma fge_fabs_mono:
  "y \<le> x \<Longrightarrow> fge a (Fl x) \<Longrightarrow> fge a (Fl y)"
  by (cases a) (auto simp: fge_def feq_def)

subsection \<open>Rounding to a double\<close>

lemma dadd_Fl [simp]: "dadd (Fl x) (Fl y) = Fl (dbl (x + y))"
  by (simp add: dadd_def)

lemma ddiv_Fl [simp]: "y \<noteq> 0 \<Longrightarrow> ddiv (Fl x) (Fl y) = Fl (dbl (x / y))"
  by (simp add: ddiv_def)

lemma dbl_thresholds: "dbl (4 / 10) \<le> dbl (6 / 10)"
  by code_simp

lemma dbl_bands: "dbl (2 / 10) \<le> dbl (4 / 10)" "dbl (6 / 10) \<le> dbl (8 / 10)"
  by code_simp+

lemma rint_error: "\<bar>of_int (rint y) - y\<bar> \<le> 1 / 2"
proof -
  have "of_int \<lfloor>y\<rfloor> \<le> y" "y < of_int \<lfloor>y\<rfloor> + 1" by linarith+
  then show ?thesis by (auto simp: rint_def Let_def)
qed

lemma pow2_pos: "0 < pow2 k"
  by (simp add: pow2_def)

lemma pow2_expo_le: "x \<noteq> 0 \<Longrightarrow> pow2 (expo x) \<le> \<bar>x\<bar>"
proof (cases "1 \<le> \<bar>x\<bar>")
  case True
  let ?n = "\<lfloor>\<bar>x\<bar>\<rfloor>"
  from True have n: "0 < ?n" by linarith
  from bitlen_bounds [OF n] have "2 ^ nat (bitlen ?n - 1) \<le> ?n" ..
  then have "(2::real) ^ nat (bitlen ?n - 1) \<le> of_int ?n"
    by (metis of_int_le_iff of_int_numeral of_int_power)
  also have "\<dots> \<le> \<bar>x\<bar>" by linarith
  finally have le: "(2::real) ^ nat (bitlen ?n - 1) \<le> \<bar>x\<bar>" .
  from n have "1 \<le> bitlen ?n" by (simp add: bitlen_alt_def)
  with True le show ?thesis by (simp add: expo_def pow2_def)
next
  case False
  assume nz: "x \<noteq> 0"
  let ?y = "1 / \<bar>x\<bar>"
  let ?m = "\<lceil>?y\<rceil> - 1"
  from False nz have y: "1 < ?y" by simp
  then have m: "0 < ?m" by linarith
  from bitlen_bounds [OF m] have "?m < 2 ^ nat (bitlen ?m)" ..
  then have "\<lceil>?y\<rceil> \<le> 2 ^ nat (bitlen ?m)" by simp
  then have "of_int \<lceil>?y\<rceil> \<le> (2::real) ^ nat (bitlen ?m)"
    by (metis of_int_le_iff of_int_numeral of_int_power)
  moreover have "?y \<le> of_int \<lceil>?y\<rceil>" by linarith
  ultimately have "?y \<le> 2 ^ nat (bitlen ?m)" by linarith
  with nz have le: "1 / 2 ^ nat (bitlen ?m) \<le> \<bar>x\<bar>"
    by (simp add: field_simps)
  from m have "1 \<le> bitlen ?m" by (simp add: bitlen_alt_def)
  with False le show ?thesis by (simp add: expo_def pow2_def)
qed

lemma ulp_bounds: "x \<noteq> 0 \<Longrightarrow> 0 < ulp x \<and> ulp x \<le> \<bar>x\<bar> / 2 ^ 52"
  using pow2_expo_le [of x] pow2_pos [of "expo x"]
  by (simp add: ulp_def divide_right_mono)

lemma dbl_error: "\<bar>dbl x - x\<bar> \<le> eps * \<bar>x\<bar>"
proof (cases "x = 0")
  case True
  then show ?thesis by (simp add: dbl_def)
next
  case False
  let ?u = "ulp x"
  from ulp_bounds [OF False] have u: "0 < ?u" "?u \<le> \<bar>x\<bar> / 2 ^ 52" by simp_all
  have "dbl x - x = (of_int (rint (x / ?u)) - x / ?u) * ?u"
    using False u by (simp add: dbl_def Let_def field_simps)
  then have "\<bar>dbl x - x\<bar> = \<bar>of_int (rint (x / ?u)) - x / ?u\<bar> * ?u"
    using u by (simp add: abs_mult)
  also have "\<dots> \<le> (1 / 2) * ?u"
    using rint_error [of "x / ?u"] u by (intro mult_right_mono) simp_all
  also have "\<dots> \<le> (1 / 2) * (\<bar>x\<bar> / 2 ^ 52)"
    using u by simp
  also have "\<dots> = eps * \<bar>x\<bar>" by (simp add: eps_def)
  finally show ?thesis .
qed

lemma dbl_bounds: "0 \<le> x \<Longrightarrow> (1 - eps) * x \<le> dbl x \<and> dbl x \<le> (1 + eps) * x"
  using dbl_error [of x] by (simp add: abs_le_iff algebra_simps)


lemma eps_range: "0 < eps" "eps < 1"
  by (simp_all add: eps_def)

lemma rel_within_refl: "rel_within 0 x x"
  by (simp add: rel_within_def)

lemma rel_within_nonneg: "0 \<le> s \<Longrightarrow> rel_within k v s \<Longrightarrow> 0 \<le> v"
proof -
  assume s: "0 \<le> s" and w: "rel_within k v s"
  have "0 \<le> (1 - eps) ^ k * s" using eps_range s by simp
  with w show ?thesis by (simp add: rel_within_def)
qed

lemma rel_within_mono:
  assumes "0 \<le> s" "rel_within k v s" "k \<le> k'"
  shows "rel_within k' v s"
proof -
  have "(1 - eps) ^ k' \<le> (1 - eps) ^ k"
    using eps_range assms(3) by (intro power_decreasing) simp_all
  then have lo: "(1 - eps) ^ k' * s \<le> (1 - eps) ^ k * s"
    using assms(1) by (rule mult_right_mono)
  have "(1 + eps) ^ k \<le> (1 + eps) ^ k'"
    using eps_range assms(3) by (intro power_increasing) simp_all
  then have hi: "(1 + eps) ^ k * s \<le> (1 + eps) ^ k' * s"
    using assms(1) by (rule mult_right_mono)
  from lo hi assms(2) show ?thesis by (simp add: rel_within_def)
qed

lemma rel_within_dbl:
  assumes "0 \<le> s" "rel_within k a s"
  shows "rel_within (Suc k) (dbl a) s"
proof -
  from assms have a: "0 \<le> a" by (rule rel_within_nonneg)
  from dbl_bounds [OF a] have d: "(1 - eps) * a \<le> dbl a" "dbl a \<le> (1 + eps) * a" by simp_all
  from assms(2) have lo: "(1 - eps) ^ k * s \<le> a" and hi: "a \<le> (1 + eps) ^ k * s"
    by (simp_all add: rel_within_def)
  have "(1 - eps) * ((1 - eps) ^ k * s) \<le> (1 - eps) * a"
    using lo eps_range by (intro mult_left_mono) simp_all
  with d(1) have l: "(1 - eps) ^ Suc k * s \<le> dbl a" by (simp add: mult.assoc)
  have "(1 + eps) * a \<le> (1 + eps) * ((1 + eps) ^ k * s)"
    using hi eps_range by (intro mult_left_mono) simp_all
  with d(2) have h: "dbl a \<le> (1 + eps) ^ Suc k * s" by (simp add: mult.assoc)
  from l h show ?thesis by (simp add: rel_within_def)
qed

lemma rel_within_sum:
  assumes "rel_within k a s" "rel_within k b t"
  shows "rel_within k (a + b) (s + t)"
  using assms by (simp add: rel_within_def algebra_simps add_mono)

lemma rel_within_add:
  assumes "0 \<le> s" "0 \<le> t" "rel_within k a s" "rel_within k b t"
  shows "rel_within (Suc k) (dbl (a + b)) (s + t)"
  using assms by (intro rel_within_dbl rel_within_sum) simp_all

lemma rel_within_div:
  assumes "0 \<le> s" "0 < n" "rel_within k a s"
  shows "rel_within (Suc k) (dbl (a / n)) (s / n)"
proof -
  from assms(3) have "rel_within k (a / n) (s / n)"
    using assms(2) by (simp add: rel_within_def divide_right_mono)
  with assms(1,2) show ?thesis by (intro rel_within_dbl) simp_all
qed

lemma rel_within_trans:
  assumes "0 \<le> t" "rel_within j v s" "rel_within k s t"
  shows "rel_within (j + k) v t"
proof -
  from assms(3) have lo: "(1 - eps) ^ k * t \<le> s" and hi: "s \<le> (1 + eps) ^ k * t"
    by (simp_all add: rel_within_def)
  have "(1 - eps) ^ j * ((1 - eps) ^ k * t) \<le> (1 - eps) ^ j * s"
    using lo eps_range by (intro mult_left_mono) simp_all
  moreover have "(1 + eps) ^ j * s \<le> (1 + eps) ^ j * ((1 + eps) ^ k * t)"
    using hi eps_range by (intro mult_left_mono) simp_all
  ultimately show ?thesis
    using assms(2) by (simp add: rel_within_def power_add mult.assoc)
qed

lemma foldl_dadd_within:
  assumes "0 \<le> s" "rel_within k v s" "\<forall>x \<in> set xs. 0 \<le> x"
  shows "\<exists>w. foldl dadd (Fl v) (map Fl xs) = Fl w \<and> rel_within (k + length xs) w (s + sum_list xs)"
  using assms
proof (induction xs arbitrary: k v s)
  case Nil
  then show ?case by simp
next
  case (Cons x xs)
  from Cons.prems have x: "0 \<le> x" by simp
  have "rel_within k x x" using rel_within_mono [OF x rel_within_refl] by simp
  with Cons.prems x have step: "rel_within (Suc k) (dbl (v + x)) (s + x)"
    by (intro rel_within_add) simp_all
  from Cons.prems x have "0 \<le> s + x" by simp
  from Cons.IH [OF this step] Cons.prems(3)
  show ?case by (simp add: add.assoc)
qed

lemma tree8_within:
  assumes "0 \<le> a" "0 \<le> b" "0 \<le> c" "0 \<le> d" "0 \<le> e" "0 \<le> f" "0 \<le> g" "0 \<le> h"
  shows "\<exists>w. tree8 [Fl a, Fl b, Fl c, Fl d, Fl e, Fl f, Fl g, Fl h] = Fl w \<and>
           rel_within 3 w (a + b + c + d + e + f + g + h)"
proof -
  have leaf: "rel_within 0 x x" for x by (rule rel_within_refl)
  have ab: "rel_within 1 (dbl (a + b)) (a + b)" using rel_within_add [OF assms(1,2) leaf leaf] by simp
  have cd: "rel_within 1 (dbl (c + d)) (c + d)" using rel_within_add [OF assms(3,4) leaf leaf] by simp
  have ef: "rel_within 1 (dbl (e + f)) (e + f)" using rel_within_add [OF assms(5,6) leaf leaf] by simp
  have gh: "rel_within 1 (dbl (g + h)) (g + h)" using rel_within_add [OF assms(7,8) leaf leaf] by simp
  have abcd: "rel_within 2 (dbl (dbl (a + b) + dbl (c + d))) ((a + b) + (c + d))"
    using rel_within_add [OF _ _ ab cd] assms by (simp add: numeral_2_eq_2)
  have efgh: "rel_within 2 (dbl (dbl (e + f) + dbl (g + h))) ((e + f) + (g + h))"
    using rel_within_add [OF _ _ ef gh] assms by (simp add: numeral_2_eq_2)
  have "rel_within 3 (dbl (dbl (dbl (a + b) + dbl (c + d)) + dbl (dbl (e + f) + dbl (g + h))))
          (((a + b) + (c + d)) + ((e + f) + (g + h)))"
    using rel_within_add [OF _ _ abcd efgh] assms by (simp add: numeral_3_eq_3)
  then show ?thesis by (simp add: add.assoc)
qed

lemma sum_dbl_within:
  "\<forall>x \<in> set xs. 0 \<le> x \<Longrightarrow> rel_within 1 (sum_list (map dbl xs)) (sum_list xs)"
proof (induction xs)
  case Nil
  then show ?case by (simp add: rel_within_def)
next
  case (Cons x xs)
  then have x: "0 \<le> x" by simp
  have "rel_within 1 (dbl x) x" using rel_within_dbl [OF x rel_within_refl] by simp
  with Cons show ?case using rel_within_sum [of 1 "dbl x" x] by simp
qed

lemma dbl_nonneg: "0 \<le> x \<Longrightarrow> 0 \<le> dbl x"
  using rel_within_nonneg [OF _ rel_within_dbl [OF _ rel_within_refl], of x] by simp

lemma pairwise_sum_within:
  assumes "length ys \<le> 15" "\<forall>y \<in> set ys. 0 \<le> y"
  shows "\<exists>w. pairwise_sum (map Fl ys) = Fl w \<and> rel_within (length ys) w (sum_list ys)"
proof (cases "length ys < 8")
  case True
  from foldl_dadd_within [OF _ rel_within_refl assms(2), of 0]
  obtain w where "foldl dadd (Fl 0) (map Fl ys) = Fl w" "rel_within (length ys) w (sum_list ys)"
    by auto
  with True show ?thesis by simp
next
  case False
  then have "8 \<le> length ys" by simp
  then obtain a b c d e f g h rest where ys: "ys = a # b # c # d # e # f # g # h # rest"
    by (auto simp: numeral_eq_Suc Suc_le_length_iff)
  with assms(1) have rest: "length rest < 8" by simp
  from ys assms(2) have nn: "0 \<le> a" "0 \<le> b" "0 \<le> c" "0 \<le> d" "0 \<le> e" "0 \<le> f" "0 \<le> g" "0 \<le> h"
    and rnn: "\<forall>x \<in> set rest. 0 \<le> x"
    by simp_all
  from tree8_within [OF nn] obtain t where
    t: "tree8 [Fl a, Fl b, Fl c, Fl d, Fl e, Fl f, Fl g, Fl h] = Fl t"
    and tw: "rel_within 3 t (a + b + c + d + e + f + g + h)"
    by blast
  from nn have s: "0 \<le> a + b + c + d + e + f + g + h" by simp
  from foldl_dadd_within [OF s tw rnn] obtain w where
    w: "foldl dadd (Fl t) (map Fl rest) = Fl w"
    and ww: "rel_within (3 + length rest) w (a + b + c + d + e + f + g + h + sum_list rest)"
    by blast
  have acc: "accumulate [Fl a, Fl b, Fl c, Fl d, Fl e, Fl f, Fl g, Fl h] (map Fl rest) =
      ([Fl a, Fl b, Fl c, Fl d, Fl e, Fl f, Fl g, Fl h], map Fl rest)"
    using rest by simp
  have "pairwise_sum (map Fl ys) = Fl w"
    using ys assms(1) rest t w acc by (simp del: accumulate.simps tree8.simps)
  moreover have "rel_within (length ys) w (sum_list ys)"
  proof -
    have "0 \<le> sum_list ys" using assms(2) by (simp add: sum_list_nonneg)
    moreover have "rel_within (3 + length rest) w (sum_list ys)"
      using ww ys by (simp add: add.assoc)
    moreover have "3 + length rest \<le> length ys" using ys by simp
    ultimately show ?thesis by (rule rel_within_mono)
  qed
  ultimately show ?thesis by blast
qed

lemma np_mean_within:
  assumes "xs \<noteq> []" "length xs \<le> 15" "\<forall>x \<in> set xs. 0 \<le> x"
  shows "\<exists>m. np_mean (map Fl xs) = Fl m \<and>
           rel_within (length xs + 3) m (sum_list xs / real (length xs))"
proof -
  let ?ys = "map dbl xs"
  let ?n = "real (length xs)"
  have conv: "map to_double (map Fl xs) = map Fl ?ys" by simp
  have ynn: "\<forall>y \<in> set ?ys. 0 \<le> y"
  proof
    fix y
    assume "y \<in> set ?ys"
    then obtain x where "x \<in> set xs" "y = dbl x" by auto
    with assms(3) show "0 \<le> y" by (simp add: dbl_nonneg)
  qed
  have snn: "0 \<le> sum_list ?ys" by (rule sum_list_nonneg) (use ynn in blast)
  from pairwise_sum_within [of ?ys] assms(2) ynn obtain w where
    w: "pairwise_sum (map Fl ?ys) = Fl w" and ww: "rel_within (length xs) w (sum_list ?ys)"
    by auto
  have "rel_within 0 0 (0::real)" by (rule rel_within_refl)
  then have "rel_within (length xs) 0 (0::real)" by (simp add: rel_within_def)
  with ww snn have z: "rel_within (Suc (length xs)) (dbl (0 + w)) (0 + sum_list ?ys)"
    by (intro rel_within_add) simp_all
  from assms(1) have n: "0 < ?n" by simp
  from z snn n have d: "rel_within (Suc (Suc (length xs))) (dbl (dbl (0 + w) / ?n)) (sum_list ?ys / ?n)"
    by (intro rel_within_div) simp_all
  have x0: "0 \<le> sum_list xs / ?n" using assms(3) by (simp add: sum_list_nonneg)
  have "rel_within 1 (sum_list ?ys) (sum_list xs)" using assms(3) by (rule sum_dbl_within)
  then have "rel_within 1 (sum_list ?ys / ?n) (sum_list xs / ?n)"
    using n by (simp add: rel_within_def divide_right_mono)
  from rel_within_trans [OF x0 d this]
  have fin: "rel_within (length xs + 3) (dbl (dbl (0 + w) / ?n)) (sum_list xs / ?n)"
    by (simp add: numeral_3_eq_3)
  have "np_mean (map Fl xs) = ddiv (dadd (Fl 0) (pairwise_sum (map Fl ?ys))) (Fl ?n)"
    by (simp only: np_mean_def conv length_map)
  also have "\<dots> = Fl (dbl (dbl (0 + w) / ?n))"
    unfolding w using n by simp
  finally have "np_mean (map Fl xs) = Fl (dbl (dbl (0 + w) / ?n))" .
  with fin show ?thesis by blast
qed

subsection \<open>Rounding is monotone\<close>

lemma rint_of_int: "rint (of_int k) = k"
  by (simp add: rint_def)

lemma rint_mono: "a \<le> b \<Longrightarrow> rint a \<le> rint b"
proof -
  assume ab: "a \<le> b"
  have fa: "of_int \<lfloor>a\<rfloor> \<le> a" "a < of_int \<lfloor>a\<rfloor> + 1" by linarith+
  have fb: "of_int \<lfloor>b\<rfloor> \<le> b" "b < of_int \<lfloor>b\<rfloor> + 1" by linarith+
  from ab have "\<lfloor>a\<rfloor> \<le> \<lfloor>b\<rfloor>" by (rule floor_mono)
  then consider "\<lfloor>a\<rfloor> = \<lfloor>b\<rfloor>" | "\<lfloor>a\<rfloor> + 1 \<le> \<lfloor>b\<rfloor>" by linarith
  then show ?thesis
  proof cases
    case 1
    with ab show ?thesis by (auto simp: rint_def Let_def)
  next
    case 2
    have "rint a \<le> \<lfloor>a\<rfloor> + 1" by (auto simp: rint_def Let_def)
    moreover have "\<lfloor>b\<rfloor> \<le> rint b" by (auto simp: rint_def Let_def)
    ultimately show ?thesis using 2 by linarith
  qed
qed

lemma rint_minus: "rint (- y) = - rint y"
proof (cases "y = of_int \<lfloor>y\<rfloor>")
  case True
  then obtain k where "y = of_int k" ..
  then have "- y = of_int (- k)" by simp
  then have "rint (- y) = - k" by (simp only: rint_of_int)
  with \<open>y = of_int k\<close> show ?thesis by (simp add: rint_of_int)
next
  case False
  then have c: "\<lceil>y\<rceil> = \<lfloor>y\<rfloor> + 1" by (simp add: ceiling_altdef)
  have f: "\<lfloor>- y\<rfloor> = - \<lfloor>y\<rfloor> - 1" using c by (simp add: floor_minus)
  show ?thesis
    unfolding rint_def Let_def f by (auto simp: algebra_simps)
qed

lemma pow2_add1: "pow2 (k + 1) = 2 * pow2 k"
proof (cases "0 \<le> k")
  case True
  then show ?thesis by (simp add: pow2_def nat_add_distrib)
next
  case False
  then have "nat (- k) = Suc (nat (- (k + 1)))" by simp
  with False show ?thesis by (auto simp: pow2_def)
qed

lemma pow2_mono: "j \<le> k \<Longrightarrow> pow2 j \<le> pow2 k"
proof -
  assume "j \<le> k"
  then obtain n where k: "k = j + int n" by (metis zle_iff_zadd)
  have "pow2 j \<le> pow2 (j + int n)"
  proof (induction n)
    case 0
    then show ?case by simp
  next
    case (Suc n)
    have "pow2 (j + int (Suc n)) = 2 * pow2 (j + int n)"
      using pow2_add1 [of "j + int n"] by (simp add: algebra_simps)
    with Suc pow2_pos [of "j + int n"] show ?case by linarith
  qed
  with k show ?thesis by simp
qed

lemma expo_upper: "x \<noteq> 0 \<Longrightarrow> \<bar>x\<bar> < pow2 (expo x + 1)"
proof (cases "1 \<le> \<bar>x\<bar>")
  case True
  let ?n = "\<lfloor>\<bar>x\<bar>\<rfloor>"
  from True have n: "0 < ?n" by linarith
  from bitlen_bounds [OF n] have "?n < 2 ^ nat (bitlen ?n)" ..
  then have "?n + 1 \<le> 2 ^ nat (bitlen ?n)" by simp
  then have "of_int (?n + 1) \<le> (2::real) ^ nat (bitlen ?n)"
    by (metis of_int_le_iff of_int_numeral of_int_power)
  moreover have "\<bar>x\<bar> < of_int (?n + 1)" by simp
  ultimately have lt: "\<bar>x\<bar> < 2 ^ nat (bitlen ?n)" by linarith
  from n have "1 \<le> bitlen ?n" by (simp add: bitlen_alt_def)
  with True lt show ?thesis by (simp add: expo_def pow2_def)
next
  case False
  assume nz: "x \<noteq> 0"
  let ?y = "1 / \<bar>x\<bar>"
  let ?m = "\<lceil>?y\<rceil> - 1"
  from False nz have y: "1 < ?y" by simp
  then have m: "0 < ?m" by linarith
  from bitlen_bounds [OF m] have "2 ^ nat (bitlen ?m - 1) \<le> ?m" ..
  then have "(2::real) ^ nat (bitlen ?m - 1) \<le> of_int ?m"
    by (metis of_int_le_iff of_int_numeral of_int_power)
  moreover have "of_int ?m < ?y" by linarith
  ultimately have "(2::real) ^ nat (bitlen ?m - 1) < ?y" by linarith
  with nz have lt: "\<bar>x\<bar> < 1 / 2 ^ nat (bitlen ?m - 1)"
    by (simp add: field_simps)
  from m have b: "1 \<le> bitlen ?m" by (simp add: bitlen_alt_def)
  have "pow2 (expo x + 1) = 1 / 2 ^ nat (bitlen ?m - 1)"
  proof (cases "bitlen ?m = 1")
    case True
    with False show ?thesis by (simp add: expo_def pow2_def)
  next
    case F: False
    with b have "1 < bitlen ?m" by simp
    with False show ?thesis by (simp add: expo_def pow2_def) 
  qed
  with lt show ?thesis by simp
qed


lemma expo_abs: "expo (- x) = expo x"
  by (simp add: expo_def)

lemma dbl_minus: "dbl (- x) = - dbl x"
  by (simp add: dbl_def Let_def ulp_def expo_abs rint_minus)

lemma dbl_pos_bounds:
  assumes "0 < x"
  shows "pow2 (expo x) \<le> dbl x" "dbl x \<le> pow2 (expo x + 1)"
proof -
  let ?u = "ulp x"
  from assms have nz: "x \<noteq> 0" by simp
  from ulp_bounds [OF nz] have u: "0 < ?u" by simp
  have p: "pow2 (expo x) = 4503599627370496 * ?u" by (simp add: ulp_def)
  from pow2_expo_le [OF nz] assms have "4503599627370496 * ?u \<le> x" by (simp add: p)
  with u have "of_int 4503599627370496 \<le> x / ?u" by (simp add: field_simps)
  from rint_mono [OF this] have "4503599627370496 \<le> rint (x / ?u)"
    by (simp only: rint_of_int)
  then have "(4503599627370496::real) \<le> of_int (rint (x / ?u))" by linarith
  with u have "4503599627370496 * ?u \<le> of_int (rint (x / ?u)) * ?u"
    by (intro mult_right_mono) simp_all
  with nz show "pow2 (expo x) \<le> dbl x" by (simp add: dbl_def Let_def p)
  from expo_upper [OF nz] assms have "x < 2 * (4503599627370496 * ?u)"
    by (simp add: pow2_add1 p)
  with u have "x / ?u \<le> of_int 9007199254740992" by (simp add: field_simps)
  from rint_mono [OF this] have "rint (x / ?u) \<le> 9007199254740992"
    by (simp only: rint_of_int)
  then have "of_int (rint (x / ?u)) \<le> (9007199254740992::real)" by linarith
  with u have "of_int (rint (x / ?u)) * ?u \<le> 9007199254740992 * ?u"
    by (intro mult_right_mono) simp_all
  with nz show "dbl x \<le> pow2 (expo x + 1)" by (simp add: dbl_def Let_def pow2_add1 p)
qed

lemma dbl_mono_pos:
  assumes "0 < x" "x \<le> y"
  shows "dbl x \<le> dbl y"
proof -
  from assms have y: "0 < y" by simp
  from assms y have nz: "x \<noteq> 0" "y \<noteq> 0" by simp_all
  have "pow2 (expo x) \<le> x" using pow2_expo_le [OF nz(1)] assms by simp
  also have "x \<le> y" by fact
  also have "y < pow2 (expo y + 1)" using expo_upper [OF nz(2)] y by simp
  finally have lt: "pow2 (expo x) < pow2 (expo y + 1)" .
  have le: "expo x \<le> expo y"
  proof (rule ccontr)
    assume "\<not> expo x \<le> expo y"
    then have "expo y + 1 \<le> expo x" by simp
    from pow2_mono [OF this] lt show False by simp
  qed
  show ?thesis
  proof (cases "expo x = expo y")
    case True
    then have u: "ulp x = ulp y" by (simp add: ulp_def)
    from ulp_bounds [OF nz(2)] have up: "0 < ulp y" by simp
    with assms have "x / ulp y \<le> y / ulp y" by (simp add: divide_right_mono)
    from rint_mono [OF this] have "of_int (rint (x / ulp y)) \<le> (of_int (rint (y / ulp y)) :: real)"
      by simp
    with up have "of_int (rint (x / ulp y)) * ulp y \<le> of_int (rint (y / ulp y)) * ulp y"
      by (intro mult_right_mono) simp_all
    with nz u show ?thesis by (simp add: dbl_def Let_def)
  next
    case False
    with le have "expo x + 1 \<le> expo y" by simp
    from pow2_mono [OF this] dbl_pos_bounds(2) [OF assms(1)] dbl_pos_bounds(1) [OF y]
    show ?thesis by linarith
  qed
qed

lemma dbl_mono: "x \<le> y \<Longrightarrow> dbl x \<le> dbl y"
proof -
  assume xy: "x \<le> y"
  consider "0 < x" | "x \<le> 0" "0 \<le> y" | "y < 0" by linarith
  then show ?thesis
  proof cases
    case 1
    from dbl_mono_pos [OF this xy] show ?thesis .
  next
    case 2
    from 2(1) have "0 \<le> dbl (- x)" by (intro dbl_nonneg) simp
    then have "dbl x \<le> 0" by (simp add: dbl_minus)
    with dbl_nonneg [OF 2(2)] show ?thesis by linarith
  next
    case 3
    with xy have "0 < - y" "- y \<le> - x" by simp_all
    from dbl_mono_pos [OF this] show ?thesis by (simp add: dbl_minus)
  qed
qed

lemma dbl_abs: "dbl \<bar>x\<bar> = \<bar>dbl x\<bar>"
proof (cases "0 \<le> x")
  case True
  with dbl_nonneg [OF True] show ?thesis by simp
next
  case False
  then have "0 \<le> dbl (- x)" by (intro dbl_nonneg) simp
  with False show ?thesis by (simp add: dbl_minus)
qed

text \<open>Between a real bound and the double nearest to it there is no double.\<close>

lemma double_ge_above:
  assumes "dbl x = x" "t \<le> dbl t"
  shows "(dbl t \<le> \<bar>x\<bar>) = (t \<le> \<bar>x\<bar>)"
proof
  assume "dbl t \<le> \<bar>x\<bar>"
  with assms(2) show "t \<le> \<bar>x\<bar>" by linarith
next
  assume "t \<le> \<bar>x\<bar>"
  from dbl_mono [OF this] show "dbl t \<le> \<bar>x\<bar>" by (simp add: dbl_abs assms(1))
qed

lemma double_ge_below:
  assumes "dbl x = x" "dbl t \<le> t"
  shows "(dbl t \<le> \<bar>x\<bar>) = (t \<le> \<bar>x\<bar> \<or> \<bar>x\<bar> = dbl t)"
proof
  assume a: "dbl t \<le> \<bar>x\<bar>"
  show "t \<le> \<bar>x\<bar> \<or> \<bar>x\<bar> = dbl t"
  proof (cases "t \<le> \<bar>x\<bar>")
    case True
    then show ?thesis ..
  next
    case False
    then have "\<bar>x\<bar> \<le> t" by simp
    from dbl_mono [OF this] have "\<bar>x\<bar> \<le> dbl t" by (simp add: dbl_abs assms(1))
    with a show ?thesis by simp
  qed
next
  assume "t \<le> \<bar>x\<bar> \<or> \<bar>x\<bar> = dbl t"
  with assms(2) show "dbl t \<le> \<bar>x\<bar>" by linarith
qed

lemma literal_sides:
  "8 / 10 \<le> dbl (8 / 10)" "dbl (6 / 10) \<le> 6 / 10" "4 / 10 \<le> dbl (4 / 10)"
  "2 / 10 \<le> dbl (2 / 10)"
  by code_simp+

lemma dbl_half: "dbl (1 / 2) = 1 / 2"
  by code_simp

subsection \<open>The candidate loop appends every ticker\<close>

lemma not_py_in_Str: "\<not> py_in (Str s) (as_tuples ps)"
  by (auto simp: py_in_def as_tuples_def)

lemma add_stocks_append:
  "add_stocks category stocks acc = acc @ map (\<lambda>stock. (stock, category)) stocks"
  by (induction stocks arbitrary: acc) (simp_all add: not_py_in_Str)

lemma add_categories_append:
  "add_categories items acc =
     acc @ concat (map (\<lambda>(category, stocks). map (\<lambda>stock. (stock, category)) stocks) items)"
  by (induction items arbitrary: acc) (auto simp: add_stocks_append)

lemma all_related_empty: "find_sector_peers p s = [] \<Longrightarrow> all_related p s = []"
  by (simp add: all_related_def get_related_stocks_def Let_def)

lemma all_related_flat:
  "all_related p s =
     concat (map (\<lambda>(category, stocks). map (\<lambda>stock. (stock, category)) stocks)
       (get_related_stocks p s []))"
  by (simp add: all_related_def add_categories_append)

lemma unknown_sector_no_peers:
  "map_of sector_mapping s = None \<Longrightarrow> map_of indian_sectors s = None \<Longrightarrow>
   find_sector_peers p s = []"
  by (simp add: find_sector_peers_def dict_get_def)

subsection \<open>The four outcomes of a correlation\<close>

lemma strength_of_labels:
  "strength_of c \<in> {''Very Strong'', ''Strong'', ''Moderate'', ''Weak'', ''Very Weak''}"
  by (simp add: strength_of_def Let_def)

lemma strength_of_not_sentinel:
  "strength_of c \<noteq> ''No Data''" "strength_of c \<noteq> ''Insufficient Data''" "strength_of c \<noteq> ''Error''"
  by (simp_all add: strength_of_def Let_def)

lemma strength_of_iff:
  "(strength_of c = ''Very Strong'') = fge (fabs c) (Fl (dbl (8 / 10)))"
  "(strength_of c = ''Strong'') = (fge (fabs c) (Fl (dbl (6 / 10))) \<and> \<not> fge (fabs c) (Fl (dbl (8 / 10))))"
  "(strength_of c = ''Moderate'') = (fge (fabs c) (Fl (dbl (4 / 10))) \<and> \<not> fge (fabs c) (Fl (dbl (6 / 10))))"
  "(strength_of c = ''Weak'') = (fge (fabs c) (Fl (dbl (2 / 10))) \<and> \<not> fge (fabs c) (Fl (dbl (4 / 10))))"
  "(strength_of c = ''Very Weak'') = (\<not> fge (fabs c) (Fl (dbl (2 / 10))))"
proof -
  have m1: "fge (fabs c) (Fl (dbl (8 / 10))) \<Longrightarrow> fge (fabs c) (Fl (dbl (6 / 10)))"
    by (rule fge_fabs_mono [OF dbl_bands(2)])
  have m2: "fge (fabs c) (Fl (dbl (6 / 10))) \<Longrightarrow> fge (fabs c) (Fl (dbl (4 / 10)))"
    by (rule fge_fabs_mono [OF dbl_thresholds])
  have m3: "fge (fabs c) (Fl (dbl (4 / 10))) \<Longrightarrow> fge (fabs c) (Fl (dbl (2 / 10)))"
    by (rule fge_fabs_mono [OF dbl_bands(1)])
  show "(strength_of c = ''Very Strong'') = fge (fabs c) (Fl (dbl (8 / 10)))"
    by (simp add: strength_of_def Let_def)
  show "(strength_of c = ''Strong'') = (fge (fabs c) (Fl (dbl (6 / 10))) \<and> \<not> fge (fabs c) (Fl (dbl (8 / 10))))"
    using m1 by (auto simp: strength_of_def Let_def)
  show "(strength_of c = ''Moderate'') = (fge (fabs c) (Fl (dbl (4 / 10))) \<and> \<not> fge (fabs c) (Fl (dbl (6 / 10))))"
    using m1 m2 by (auto simp: strength_of_def Let_def)
  show "(strength_of c = ''Weak'') = (fge (fabs c) (Fl (dbl (2 / 10))) \<and> \<not> fge (fabs c) (Fl (dbl (4 / 10))))"
    using m1 m2 m3 by (auto simp: strength_of_def Let_def)
  show "(strength_of c = ''Very Weak'') = (\<not> fge (fabs c) (Fl (dbl (2 / 10))))"
    using m1 m2 m3 by (auto simp: strength_of_def Let_def)
qed

lemma strength_of_real:
  "strength_of (Fl x) =
     (if dbl (8 / 10) \<le> \<bar>x\<bar> then ''Very Strong''
      else if dbl (6 / 10) \<le> \<bar>x\<bar> then ''Strong''
      else if dbl (4 / 10) \<le> \<bar>x\<bar> then ''Moderate''
      else if dbl (2 / 10) \<le> \<bar>x\<bar> then ''Weak''
      else ''Very Weak'')"
  by (simp add: strength_of_def Let_def fge_Fl)

lemma strength_of_boundaries:
  "strength_of (Fl (dbl (8 / 10))) = ''Very Strong''"
  "strength_of (Fl (dbl (6 / 10))) = ''Strong''"
  "strength_of (Fl (dbl (4 / 10))) = ''Moderate''"
  "strength_of (Fl (dbl (2 / 10))) = ''Weak''"
  by code_simp+

lemma strength_of_examples:
  "strength_of (Fl (1 / 2)) = ''Moderate''" "strength_of (Fl 0) = ''Very Weak''"
  by code_simp+

lemma get_stock_price_data_None:
  "(get_stock_price_data e t p = None) =
     ((\<exists>ex. history e t p = Inl ex) \<or> history e t p = Inr [])"
  by (auto simp: get_stock_price_data_def split: sum.splits)

lemma calculate_correlation_cases:
  obtains (nodata) "get_stock_price_data e t1 p = None \<or> get_stock_price_data e t2 p = None"
      "calculate_correlation e t1 t2 p = sentinel ''No Data''"
  | (insufficient) d1 d2 where "get_stock_price_data e t1 p = Some d1"
      "get_stock_price_data e t2 p = Some d2" "length (combined_data d1 d2) < 30"
      "calculate_correlation e t1 t2 p = sentinel ''Insufficient Data''"
  | (failed) d1 d2 ex where "get_stock_price_data e t1 p = Some d1"
      "get_stock_price_data e t2 p = Some d2" "30 \<le> length (combined_data d1 d2)"
      "series_corr e (dropna (pct_change (stock1 (combined_data d1 d2))))
         (dropna (pct_change (stock2 (combined_data d1 d2)))) = Inl ex"
      "calculate_correlation e t1 t2 p = sentinel ''Error''"
  | (computed) d1 d2 c where "get_stock_price_data e t1 p = Some d1"
      "get_stock_price_data e t2 p = Some d2" "30 \<le> length (combined_data d1 d2)"
      "series_corr e (dropna (pct_change (stock1 (combined_data d1 d2))))
         (dropna (pct_change (stock2 (combined_data d1 d2)))) = Inr c"
      "calculate_correlation e t1 t2 p =
         \<lparr>correlation = round3 c, strength = strength_of c, direction = Some (direction_of c),
          data_points = Some (length (dropna (pct_change (stock1 (combined_data d1 d2))))),
          p_value = None\<rparr>"
proof (cases "get_stock_price_data e t1 p")
  case None
  then show ?thesis
    using nodata by (simp add: calculate_correlation_def calculate_correlation_body_def)
next
  case (Some d1)
  note s1 = this
  show ?thesis
  proof (cases "get_stock_price_data e t2 p")
    case None
    then show ?thesis
      using nodata s1 by (simp add: calculate_correlation_def calculate_correlation_body_def)
  next
    case (Some d2)
    note s2 = this
    show ?thesis
    proof (cases "length (combined_data d1 d2) < 30")
      case True
      then show ?thesis
        using insufficient [OF s1 s2] s1 s2
        by (simp add: calculate_correlation_def calculate_correlation_body_def)
    next
      case False
      then have ge: "30 \<le> length (combined_data d1 d2)" by simp
      show ?thesis
      proof (cases "series_corr e (dropna (pct_change (stock1 (combined_data d1 d2))))
         (dropna (pct_change (stock2 (combined_data d1 d2))))")
        case (Inl ex)
        then show ?thesis
          using failed [OF s1 s2 ge Inl] s1 s2 False
          by (simp add: calculate_correlation_def calculate_correlation_body_def Let_def)
      next
        case (Inr c)
        then show ?thesis
          using computed [OF s1 s2 ge Inr] s1 s2 False
          by (simp add: calculate_correlation_def calculate_correlation_body_def Let_def)
      qed
    qed
  qed
qed


lemma nonzero_result_labels:
  assumes "fne (correlation (calculate_correlation e t1 t2 p)) (Fl 0)"
  shows "strength (calculate_correlation e t1 t2 p)
           \<in> {''Very Strong'', ''Strong'', ''Moderate'', ''Weak'', ''Very Weak''} \<and>
         direction (calculate_correlation e t1 t2 p) \<in> {Some ''Positive'', Some ''Negative''}"
proof (cases rule: calculate_correlation_cases [of e t1 p t2])
  case (computed d1 d2 c)
  then show ?thesis using strength_of_labels [of c] by (simp add: direction_of_def)
next
  case nodata
  with assms show ?thesis by (simp add: sentinel_def fne_def feq_def)
next
  case (insufficient d1 d2)
  with assms show ?thesis by (simp add: sentinel_def fne_def feq_def)
next
  case (failed d1 d2 ex)
  with assms show ?thesis by (simp add: sentinel_def fne_def feq_def)
qed

subsection \<open>Returns\<close>






subsection \<open>Submission and collection\<close>

lemma submit_all_candidates:
  "submit_all e i cands = Inr futures \<Longrightarrow> map snd futures = cands"
proof (induction cands arbitrary: i futures)
  case Nil
  then show ?case by simp
next
  case (Cons c cands)
  obtain stock category where c: "c = (stock, category)" by (cases c)
  from Cons.prems c obtain rest where
    rest: "submit_all e (Suc i) cands = Inr rest" and f: "futures = (i, stock, category) # rest"
    by (auto split: option.splits sum.splits)
  from Cons.IH [OF rest] c f show ?case by simp
qed

lemma submit_all_fails:
  "submit_all e i cands = Inl ex \<Longrightarrow> \<exists>k < length cands. submit_fault e (i + k) = Some ex"
proof (induction cands arbitrary: i)
  case Nil
  then show ?case by simp
next
  case (Cons c cands)
  obtain stock category where c: "c = (stock, category)" by (cases c)
  show ?case
  proof (cases "submit_fault e i")
    case (Some ex')
    with Cons.prems c have "submit_fault e (i + 0) = Some ex" by simp
    then show ?thesis by (intro exI [of _ 0]) simp
  next
    case None
    with Cons.prems c have "submit_all e (Suc i) cands = Inl ex"
      by (simp split: sum.splits)
    from Cons.IH [OF this] obtain k where "k < length cands"
      "submit_fault e (Suc i + k) = Some ex" by blast
    then show ?thesis by (intro exI [of _ "Suc k"]) simp
  qed
qed

lemma collect_member:
  assumes "x \<in> set (collect e primary futures)"
  shows "\<exists>i stock category. (i, stock, category) \<in> set futures \<and> \<not> timed_out e i \<and>
           fne (correlation (calculate_correlation e primary stock ''1y'')) (Fl 0) \<and>
           x = make_entry stock category (calculate_correlation e primary stock ''1y'')"
  using assms
proof (induction futures)
  case Nil
  then show ?case by simp
next
  case (Cons f futures)
  obtain i stock category where f: "f = (i, stock, category)" by (cases f)
  show ?case
  proof (cases "x \<in> set (collect e primary futures)")
    case True
    from Cons.IH [OF True] show ?thesis by auto
  next
    case False
    with Cons.prems f have "\<not> timed_out e i"
      and "fne (correlation (calculate_correlation e primary stock ''1y'')) (Fl 0)"
      and "x = make_entry stock category (calculate_correlation e primary stock ''1y'')"
      by (auto simp: Let_def split: if_splits)
    with f show ?thesis by auto
  qed
qed


subsection \<open>The descending insertion sort\<close>


lemma length_insert_desc: "length (insert_desc x ys) = Suc (length ys)"
  by (induction ys) auto


lemma length_sort_desc: "length (sort_desc xs) = length xs"
  by (induction xs) (simp_all add: sort_desc_def length_insert_desc)

lemma sort_desc_Nil_iff: "(sort_desc xs = []) = (xs = [])"
  using length_sort_desc [of xs] by (metis length_0_conv)





lemma mset_insert_desc: "mset (insert_desc x ys) = add_mset x (mset ys)"
  by (induction ys) auto

lemma mset_sort_desc: "mset (sort_desc xs) = mset xs"
  by (induction xs) (simp_all add: sort_desc_def mset_insert_desc)

lemma mset_reorder: "mset (reorder idx xs) = mset xs"
proof (cases "sort idx = [0..<length xs]")
  case True
  have "mset idx = mset (sort idx)" by simp
  also have "\<dots> = mset [0..<length xs]" by (simp only: True)
  finally have "image_mset (\<lambda>i. xs ! i) (mset idx) = image_mset (\<lambda>i. xs ! i) (mset [0..<length xs])"
    by simp
  then have "mset (map (\<lambda>i. xs ! i) idx) = mset (map (\<lambda>i. xs ! i) [0..<length xs])"
    by simp
  also have "map (\<lambda>i. xs ! i) [0..<length xs] = xs" by (rule map_nth)
  finally show ?thesis using True by (simp add: reorder_def)
next
  case False
  then show ?thesis by (simp add: reorder_def)
qed

lemma mset_list_sort_desc: "mset (list_sort_desc e xs) = mset xs"
  by (simp add: list_sort_desc_def mset_sort_desc mset_reorder)

lemma set_list_sort_desc: "set (list_sort_desc e xs) = set xs"
  using mset_list_sort_desc [of e xs] by (rule mset_eq_setD)

lemma length_list_sort_desc: "length (list_sort_desc e xs) = length xs"
  using mset_list_sort_desc [of e xs] by (rule mset_eq_length)


subsection \<open>The analysis\<close>

lemma related_stocks_member:
  assumes "x \<in> set (related_stocks (analyze_stock_impact e p s))"
  shows "\<exists>stock category. (stock, category) \<in> set (all_related p s) \<and>
           fne (correlation (calculate_correlation e p stock ''1y'')) (Fl 0) \<and>
           x = make_entry stock category (calculate_correlation e p stock ''1y'')"
proof (cases "submit_all e 0 (all_related p s)")
  case (Inl ex)
  with assms show ?thesis
    by (simp add: analyze_stock_impact_def analyze_body_def error_result_def)
next
  case (Inr futures)
  with assms have "x \<in> set (collect e p futures)"
    by (simp add: analyze_stock_impact_def analyze_body_def Let_def set_list_sort_desc)
  from collect_member [OF this] obtain i stock category where
    m: "(i, stock, category) \<in> set futures"
    and nz: "fne (correlation (calculate_correlation e p stock ''1y'')) (Fl 0)"
    and x: "x = make_entry stock category (calculate_correlation e p stock ''1y'')"
    by blast
  from m have "(stock, category) \<in> set (map snd futures)" by force
  with submit_all_candidates [OF Inr] have "(stock, category) \<in> set (all_related p s)" by simp
  with nz x show ?thesis by blast
qed

lemma analyze_body_fails:
  "analyze_body e p s = Inl ex \<Longrightarrow>
   \<exists>k < length (all_related p s). submit_fault e k = Some ex"
proof -
  assume "analyze_body e p s = Inl ex"
  then have "submit_all e 0 (all_related p s) = Inl ex"
    by (simp add: analyze_body_def Let_def split: sum.splits)
  from submit_all_fails [OF this] show ?thesis by simp
qed

lemma summarize_influence:
  "(market_influence (summarize rs) = ''Unknown'') = (rs = [])"
  "(market_influence (summarize rs) = ''High'') =
     (rs \<noteq> [] \<and> fge (np_mean (map abs_key rs)) (Fl (dbl (6 / 10))))"
  "(market_influence (summarize rs) = ''Moderate'') =
     (rs \<noteq> [] \<and> fge (np_mean (map abs_key rs)) (Fl (dbl (4 / 10))) \<and>
      \<not> fge (np_mean (map abs_key rs)) (Fl (dbl (6 / 10))))"
  "(market_influence (summarize rs) = ''Low'') =
     (rs \<noteq> [] \<and> \<not> fge (np_mean (map abs_key rs)) (Fl (dbl (4 / 10))))"
proof -
  have m: "fge a (Fl (dbl (6 / 10))) \<Longrightarrow> fge a (Fl (dbl (4 / 10)))" for a
    by (rule fge_fabs_mono [OF dbl_thresholds])
  show "(market_influence (summarize rs) = ''Unknown'') = (rs = [])"
    by (simp add: summarize_def influence_of_def Let_def)
  show "(market_influence (summarize rs) = ''High'') =
     (rs \<noteq> [] \<and> fge (np_mean (map abs_key rs)) (Fl (dbl (6 / 10))))"
    by (simp add: summarize_def influence_of_def Let_def)
  show "(market_influence (summarize rs) = ''Moderate'') =
     (rs \<noteq> [] \<and> fge (np_mean (map abs_key rs)) (Fl (dbl (4 / 10))) \<and>
      \<not> fge (np_mean (map abs_key rs)) (Fl (dbl (6 / 10))))"
    by (simp add: summarize_def influence_of_def Let_def)
  show "(market_influence (summarize rs) = ''Low'') =
     (rs \<noteq> [] \<and> \<not> fge (np_mean (map abs_key rs)) (Fl (dbl (4 / 10))))"
    using m [of "np_mean (map abs_key rs)"]
    by (auto simp: summarize_def influence_of_def Let_def)
qed

lemma length_all_related: "length (all_related p s) \<le> 13"
  by (auto simp: all_related_flat get_related_stocks_def Let_def)

lemma length_collect: "length (collect e p futures) \<le> length futures"
proof (induction futures)
  case Nil
  then show ?case by simp
next
  case (Cons f futures)
  obtain i stock category where "f = (i, stock, category)" by (cases f)
  with Cons show ?case by (simp add: Let_def)
qed

lemma length_related_stocks:
  assumes "analyze_body e p s = Inr r"
  shows "length (related_stocks r) \<le> 13"
proof -
  from assms obtain futures where
    sub: "submit_all e 0 (all_related p s) = Inr futures"
    and rs: "related_stocks r = list_sort_desc e (collect e p futures)"
    by (auto simp: analyze_body_def Let_def split: sum.splits)
  have "length (related_stocks r) \<le> length futures"
    using rs length_collect [of e p futures] by (simp add: length_list_sort_desc)
  also have "\<dots> = length (all_related p s)"
    using submit_all_candidates [OF sub] by (metis length_map)
  also have "\<dots> \<le> 13" by (rule length_all_related)
  finally show ?thesis .
qed

lemma abs_key_number:
  "is_number (entry_correlation x) \<Longrightarrow> abs_key x = Fl (magnitude x)"
  by (cases "entry_correlation x") (simp_all add: abs_key_def magnitude_def)

lemma np_mean_entries:
  assumes "rs \<noteq> []" "length rs \<le> 13" "\<forall>x \<in> set rs. is_number (entry_correlation x)"
  shows "\<exists>m. np_mean (map abs_key rs) = Fl m \<and>
           (1 - eps) ^ 16 * exact_average (map magnitude rs) \<le> m \<and>
           m \<le> (1 + eps) ^ 16 * exact_average (map magnitude rs)"
proof -
  let ?xs = "map magnitude rs"
  have keys: "map abs_key rs = map Fl ?xs"
    using assms(3) by (simp add: abs_key_number)
  have nn: "\<forall>x \<in> set ?xs. 0 \<le> x" by (simp add: magnitude_def)
  from assms(1,2) have "?xs \<noteq> []" "length ?xs \<le> 15" by simp_all
  from np_mean_within [OF this nn] obtain m where
    m: "np_mean (map Fl ?xs) = Fl m"
    and w: "rel_within (length ?xs + 3) m (sum_list ?xs / real (length ?xs))"
    by blast
  have "0 \<le> sum_list ?xs / real (length ?xs)"
    by (intro divide_nonneg_nonneg sum_list_nonneg) (use nn in auto)
  from rel_within_mono [OF this w, of 16] assms(2)
  have "rel_within 16 m (exact_average ?xs)" by (simp add: exact_average_def)
  then have "(1 - eps) ^ 16 * exact_average ?xs \<le> m \<and> m \<le> (1 + eps) ^ 16 * exact_average ?xs"
    by (simp only: rel_within_def)
  moreover have "np_mean (map abs_key rs) = Fl m"
    by (simp only: keys m)
  ultimately show ?thesis by blast
qed

subsection \<open>The analysis in the concrete environments\<close>

lemma submit_all_no_fault:
  "(\<And>i. submit_fault e i = None) \<Longrightarrow> \<exists>futures. submit_all e i cands = Inr futures"
proof (induction cands arbitrary: i)
  case Nil
  then show ?case by simp
next
  case (Cons c cands)
  obtain stock category where c: "c = (stock, category)" by (cases c)
  from Cons.IH [OF Cons.prems, of "Suc i"] obtain futures where
    "submit_all e (Suc i) cands = Inr futures" by blast
  with Cons.prems c show ?case by simp
qed

lemma completes:
  assumes "\<And>i. submit_fault e i = None"
  shows "analyze_body e p s = Inr (analyze_stock_impact e p s)"
proof -
  from submit_all_no_fault [OF assms] obtain futures where
    "submit_all e 0 (all_related p s) = Inr futures" by blast
  then show ?thesis by (simp add: analyze_stock_impact_def analyze_body_def Let_def)
qed

lemma run_rank:
  "related_stocks (analyze_stock_impact env_rank ''AAPL'' ''Technology'') =
     [\<lparr>ticker = ''CRM'', relationship_type = ''sector_peers'',
        entry_correlation = Fl (dbl (- (333 / 1000))), entry_strength = ''Weak'',
        entry_direction = ''Negative'', impact_score = Fl (dbl (dbl (333 / 1000) * 100))\<rparr>,
      \<lparr>ticker = ''CRM'', relationship_type = ''industry_peers'',
        entry_correlation = Fl (dbl (- (333 / 1000))), entry_strength = ''Weak'',
        entry_direction = ''Negative'', impact_score = Fl (dbl (dbl (333 / 1000) * 100))\<rparr>,
      \<lparr>ticker = ''MSFT'', relationship_type = ''sector_peers'',
        entry_correlation = Fl (1 / 4), entry_strength = ''Weak'',
        entry_direction = ''Positive'', impact_score = Fl 25\<rparr>,
      \<lparr>ticker = ''NVDA'', relationship_type = ''sector_peers'',
        entry_correlation = Fl (1 / 4), entry_strength = ''Weak'',
        entry_direction = ''Positive'', impact_score = Fl 25\<rparr>,
      \<lparr>ticker = ''META'', relationship_type = ''industry_peers'',
        entry_correlation = Fl (1 / 4), entry_strength = ''Weak'',
        entry_direction = ''Positive'', impact_score = Fl 25\<rparr>,
      \<lparr>ticker = ''NVDA'', relationship_type = ''industry_peers'',
        entry_correlation = Fl (1 / 4), entry_strength = ''Weak'',
        entry_direction = ''Positive'', impact_score = Fl 25\<rparr>,
      \<lparr>ticker = ''ORCL'', relationship_type = ''industry_peers'',
        entry_correlation = Fl (1 / 4), entry_strength = ''Weak'',
        entry_direction = ''Positive'', impact_score = Fl 25\<rparr>,
      \<lparr>ticker = ''MSFT'', relationship_type = ''competitors'',
        entry_correlation = Fl (1 / 4), entry_strength = ''Weak'',
        entry_direction = ''Positive'', impact_score = Fl 25\<rparr>,
      \<lparr>ticker = ''META'', relationship_type = ''competitors'',
        entry_correlation = Fl (1 / 4), entry_strength = ''Weak'',
        entry_direction = ''Positive'', impact_score = Fl 25\<rparr>,
      \<lparr>ticker = ''NVDA'', relationship_type = ''competitors'',
        entry_correlation = Fl (1 / 4), entry_strength = ''Weak'',
        entry_direction = ''Positive'', impact_score = Fl 25\<rparr>,
      \<lparr>ticker = ''GOOGL'', relationship_type = ''sector_peers'',
        entry_correlation = Fl (dbl (1 / 5)), entry_strength = ''Weak'',
        entry_direction = ''Positive'', impact_score = Fl 20\<rparr>,
      \<lparr>ticker = ''GOOGL'', relationship_type = ''competitors'',
        entry_correlation = Fl (dbl (1 / 5)), entry_strength = ''Weak'',
        entry_direction = ''Positive'', impact_score = Fl 20\<rparr>]"
  by code_simp


lemma run_six:
  "let r = analyze_stock_impact env_six ''AAPL'' ''Technology''
   in map entry_correlation (related_stocks r) = replicate 13 (Fl (dbl (6 / 10))) \<and>
      market_influence (summary r) = ''Moderate''"
  by code_simp

lemma run_nine:
  "let r = analyze_stock_impact env_nine ''AAPL'' ''Technology''
   in map entry_correlation (related_stocks r) = replicate 13 (Fl (dbl (9 / 10))) \<and>
      market_influence (summary r) = ''High''"
  by code_simp

lemma run_four:
  "let r = analyze_stock_impact env_four ''AAPL'' ''Technology''
   in map abs_key (related_stocks r) = replicate 6 (Fl (dbl (4 / 10))) \<and>
      map entry_correlation (related_stocks r) = replicate 6 (Fl (dbl (4 / 10))) \<and>
      market_influence (summary r) = ''Low''"
  by code_simp

lemma dbl_four:
  "4 / 10 \<le> dbl (4 / 10)" "dbl (4 / 10) < dbl (6 / 10)" "dbl (4 / 10) < 6 / 10"
  by code_simp+

section \<open>The claims\<close>

text \<open>
  C1. The claim: the candidate list of \<^verbatim>\<open>analyze_stock_impact\<close> holds every ticker at
  most once, with the category of its first occurrence. The loop tests
  \<^verbatim>\<open>stock not in all_related\<close> on a list of pairs, which is true for every ticker
  (\<open>not_py_in_Str\<close>), so nothing is ever left out: for AAPL in Technology the list has
  thirteen pairs, META, NVDA and the others occur again under the later categories.
\<close>

theorem candidates_keep_duplicates:
  "all_related ''AAPL'' ''Technology'' =
     [(''MSFT'', ''sector_peers''), (''GOOGL'', ''sector_peers''), (''META'', ''sector_peers''),
      (''NVDA'', ''sector_peers''), (''CRM'', ''sector_peers''),
      (''META'', ''industry_peers''), (''NVDA'', ''industry_peers''),
      (''CRM'', ''industry_peers''), (''ORCL'', ''industry_peers''),
      (''MSFT'', ''competitors''), (''GOOGL'', ''competitors''), (''META'', ''competitors''),
      (''NVDA'', ''competitors'')] \<and>
   \<not> distinct (map fst (all_related ''AAPL'' ''Technology''))"
  by code_simp

text \<open>
  C2. \<^verbatim>\<open>analyze_stock_impact\<close> returns a result for every environment, ticker and
  sector: when the body of its \<^verbatim>\<open>try\<close> block completes, that result; when an exception
  leaves the body, the dictionary of the \<^verbatim>\<open>except\<close> branch, with no related stocks,
  \<^verbatim>\<open>total_analyzed\<close>, \<^verbatim>\<open>average_correlation\<close> and \<^verbatim>\<open>max_correlation\<close> zero, the
  market influence \<^verbatim>\<open>Error\<close> and the exception under the key \<^verbatim>\<open>error\<close>.
\<close>

theorem analyze_never_raises:
  "(analyze_body e p s = Inr r \<longrightarrow> analyze_stock_impact e p s = r) \<and>
   (analyze_body e p s = Inl ex \<longrightarrow>
      analyze_stock_impact e p s =
        \<lparr>primary_ticker = p, related_stocks = [],
         summary = \<lparr>total_analyzed = 0, average_correlation = Fl 0, max_correlation = Fl 0,
                    market_influence = ''Error''\<rparr>,
         timestamp = None, error = Some ex\<rparr>)"
  by (simp add: analyze_stock_impact_def error_result_def)

theorem analyze_never_raises_witness:
  "analyze_body env_busy ''AAPL'' ''Technology'' =
     Inl (PyException ''cannot schedule new futures after interpreter shutdown'') \<and>
   analyze_stock_impact env_busy ''AAPL'' ''Technology'' =
     \<lparr>primary_ticker = ''AAPL'', related_stocks = [],
      summary = \<lparr>total_analyzed = 0, average_correlation = Fl 0, max_correlation = Fl 0,
                 market_influence = ''Error''\<rparr>,
      timestamp = None,
      error = Some (PyException ''cannot schedule new futures after interpreter shutdown'')\<rparr> \<and>
   analyze_body env_half ''AAPL'' ''Crypto'' =
     Inr \<lparr>primary_ticker = ''AAPL'', related_stocks = [],
      summary = \<lparr>total_analyzed = 0, average_correlation = Fl 0, max_correlation = Fl 0,
                 market_influence = ''Unknown''\<rparr>,
      timestamp = Some ''2024-05-01T09:30:00'', error = None\<rparr> \<and>
   analyze_stock_impact env_half ''AAPL'' ''Crypto'' =
     \<lparr>primary_ticker = ''AAPL'', related_stocks = [],
      summary = \<lparr>total_analyzed = 0, average_correlation = Fl 0, max_correlation = Fl 0,
                 market_influence = ''Unknown''\<rparr>,
      timestamp = Some ''2024-05-01T09:30:00'', error = None\<rparr>"
proof -
  have a: "analyze_body env_busy ''AAPL'' ''Technology'' =
     Inl (PyException ''cannot schedule new futures after interpreter shutdown'')"
    by code_simp
  have b: "analyze_body env_half ''AAPL'' ''Crypto'' =
     Inr \<lparr>primary_ticker = ''AAPL'', related_stocks = [],
      summary = \<lparr>total_analyzed = 0, average_correlation = Fl 0, max_correlation = Fl 0,
                 market_influence = ''Unknown''\<rparr>,
      timestamp = Some ''2024-05-01T09:30:00'', error = None\<rparr>"
    by code_simp
  from a analyze_never_raises [of env_busy "''AAPL''" "''Technology''" _
      "PyException ''cannot schedule new futures after interpreter shutdown''"]
  have c: "analyze_stock_impact env_busy ''AAPL'' ''Technology'' =
     \<lparr>primary_ticker = ''AAPL'', related_stocks = [],
      summary = \<lparr>total_analyzed = 0, average_correlation = Fl 0, max_correlation = Fl 0,
                 market_influence = ''Error''\<rparr>,
      timestamp = None,
      error = Some (PyException ''cannot schedule new futures after interpreter shutdown'')\<rparr>"
    by blast
  from b analyze_never_raises [of env_half "''AAPL''" "''Crypto''"]
  have d: "analyze_stock_impact env_half ''AAPL'' ''Crypto'' =
     \<lparr>primary_ticker = ''AAPL'', related_stocks = [],
      summary = \<lparr>total_analyzed = 0, average_correlation = Fl 0, max_correlation = Fl 0,
                 market_influence = ''Unknown''\<rparr>,
      timestamp = Some ''2024-05-01T09:30:00'', error = None\<rparr>"
    by blast
  from a b c d show ?thesis by blast
qed




text \<open>
  C4. The strength and the direction of a computed result are functions of the
  coefficient \<^verbatim>\<open>returns1.corr(returns2)\<close> (the value before it is rounded for the
  report). The bands are closed below: \<open>|c| \<ge> 0.8\<close> is \<^verbatim>\<open>Very Strong\<close>, then
  \<open>\<ge> 0.6\<close> \<^verbatim>\<open>Strong\<close>, \<open>\<ge> 0.4\<close> \<^verbatim>\<open>Moderate\<close>, \<open>\<ge> 0.2\<close> \<^verbatim>\<open>Weak\<close>, and
  \<^verbatim>\<open>Very Weak\<close> otherwise, the four bounds being the doubles that the literals
  denote; a coefficient of exactly \<open>0.8\<close>, \<open>0.6\<close>, \<open>0.4\<close> or \<open>0.2\<close> is in the upper
  band. For a coefficient that is a double, being at least the double \<open>0.8\<close>,
  \<open>0.4\<close> or \<open>0.2\<close> is the same as being at least eight, four or two tenths, and
  being at least the double \<open>0.6\<close> is the same as being at least six tenths or
  being the double \<open>0.6\<close> itself. The direction is \<^verbatim>\<open>Positive\<close> exactly when
  \<open>c > 0\<close> and \<^verbatim>\<open>Negative\<close> otherwise, so for \<open>c = 0\<close> it is \<^verbatim>\<open>Negative\<close>, and it
  is never \<^verbatim>\<open>Neutral\<close>.
\<close>

theorem strength_direction_classification:
  "(get_stock_price_data e t1 p = Some d1 \<and> get_stock_price_data e t2 p = Some d2 \<and>
    30 \<le> length (combined_data d1 d2) \<and>
    series_corr e (dropna (pct_change (stock1 (combined_data d1 d2))))
      (dropna (pct_change (stock2 (combined_data d1 d2)))) = Inr c \<longrightarrow>
      strength (calculate_correlation e t1 t2 p) = strength_of c \<and>
      direction (calculate_correlation e t1 t2 p) = Some (direction_of c)) \<and>
   (strength_of c = ''Very Strong'') = fge (fabs c) (Fl (dbl (8 / 10))) \<and>
   (strength_of c = ''Strong'') =
     (fge (fabs c) (Fl (dbl (6 / 10))) \<and> \<not> fge (fabs c) (Fl (dbl (8 / 10)))) \<and>
   (strength_of c = ''Moderate'') =
     (fge (fabs c) (Fl (dbl (4 / 10))) \<and> \<not> fge (fabs c) (Fl (dbl (6 / 10)))) \<and>
   (strength_of c = ''Weak'') =
     (fge (fabs c) (Fl (dbl (2 / 10))) \<and> \<not> fge (fabs c) (Fl (dbl (4 / 10)))) \<and>
   (strength_of c = ''Very Weak'') = (\<not> fge (fabs c) (Fl (dbl (2 / 10)))) \<and>
   strength_of (Fl x) =
     (if dbl (8 / 10) \<le> \<bar>x\<bar> then ''Very Strong''
      else if dbl (6 / 10) \<le> \<bar>x\<bar> then ''Strong''
      else if dbl (4 / 10) \<le> \<bar>x\<bar> then ''Moderate''
      else if dbl (2 / 10) \<le> \<bar>x\<bar> then ''Weak''
      else ''Very Weak'') \<and>
   strength_of (Fl (dbl (8 / 10))) = ''Very Strong'' \<and>
   strength_of (Fl (dbl (6 / 10))) = ''Strong'' \<and>
   strength_of (Fl (dbl (4 / 10))) = ''Moderate'' \<and>
   strength_of (Fl (dbl (2 / 10))) = ''Weak'' \<and>
   (dbl x = x \<longrightarrow>
      (dbl (8 / 10) \<le> \<bar>x\<bar>) = (8 / 10 \<le> \<bar>x\<bar>) \<and>
      (dbl (6 / 10) \<le> \<bar>x\<bar>) = (6 / 10 \<le> \<bar>x\<bar> \<or> \<bar>x\<bar> = dbl (6 / 10)) \<and>
      (dbl (4 / 10) \<le> \<bar>x\<bar>) = (4 / 10 \<le> \<bar>x\<bar>) \<and>
      (dbl (2 / 10) \<le> \<bar>x\<bar>) = (2 / 10 \<le> \<bar>x\<bar>)) \<and>
   (direction_of c = ''Positive'') = fgt c (Fl 0) \<and>
   (direction_of c = ''Negative'') = (\<not> fgt c (Fl 0)) \<and>
   (direction_of (Fl x) = ''Positive'') = (0 < x) \<and>
   direction_of (Fl 0) = ''Negative'' \<and>
   direction_of c \<noteq> ''Neutral''"
proof -
  have run: "strength (calculate_correlation e t1 t2 p) = strength_of c \<and>
      direction (calculate_correlation e t1 t2 p) = Some (direction_of c)"
    if "get_stock_price_data e t1 p = Some d1 \<and> get_stock_price_data e t2 p = Some d2 \<and>
    30 \<le> length (combined_data d1 d2) \<and>
    series_corr e (dropna (pct_change (stock1 (combined_data d1 d2))))
      (dropna (pct_change (stock2 (combined_data d1 d2)))) = Inr c"
    using that
    by (simp add: calculate_correlation_def calculate_correlation_body_def Let_def)
  have dir: "(direction_of c = ''Positive'') = fgt c (Fl 0)"
    "(direction_of c = ''Negative'') = (\<not> fgt c (Fl 0))"
    "(direction_of (Fl x) = ''Positive'') = (0 < x)"
    "direction_of (Fl 0) = ''Negative''"
    "direction_of c \<noteq> ''Neutral''"
    by (simp_all add: direction_of_def fgt_Fl)
  have bridge: "dbl x = x \<longrightarrow>
      (dbl (8 / 10) \<le> \<bar>x\<bar>) = (8 / 10 \<le> \<bar>x\<bar>) \<and>
      (dbl (6 / 10) \<le> \<bar>x\<bar>) = (6 / 10 \<le> \<bar>x\<bar> \<or> \<bar>x\<bar> = dbl (6 / 10)) \<and>
      (dbl (4 / 10) \<le> \<bar>x\<bar>) = (4 / 10 \<le> \<bar>x\<bar>) \<and>
      (dbl (2 / 10) \<le> \<bar>x\<bar>) = (2 / 10 \<le> \<bar>x\<bar>)"
    using double_ge_above [OF _ literal_sides(1), of x]
      double_ge_below [OF _ literal_sides(2), of x]
      double_ge_above [OF _ literal_sides(3), of x]
      double_ge_above [OF _ literal_sides(4), of x]
    by blast
  from run dir strength_of_iff [of c] strength_of_real [of x] strength_of_boundaries bridge
  show ?thesis
    by blast
qed

theorem strength_direction_classification_witness:
  "get_stock_price_data env_half ''AAPL'' ''1y'' = Some (ramp 1) \<and>
   get_stock_price_data env_half ''MSFT'' ''1y'' = Some (ramp 1) \<and>
   30 \<le> length (combined_data (ramp 1) (ramp 1)) \<and>
   series_corr env_half (dropna (pct_change (stock1 (combined_data (ramp 1) (ramp 1)))))
     (dropna (pct_change (stock2 (combined_data (ramp 1) (ramp 1))))) = Inr (Fl (1 / 2)) \<and>
   strength (calculate_correlation env_half ''AAPL'' ''MSFT'' ''1y'') = ''Moderate'' \<and>
   direction (calculate_correlation env_half ''AAPL'' ''MSFT'' ''1y'') = Some ''Positive'' \<and>
   series_corr env_zero (dropna (pct_change (stock1 (combined_data (ramp 1) (ramp 1)))))
     (dropna (pct_change (stock2 (combined_data (ramp 1) (ramp 1))))) = Inr (Fl 0) \<and>
   strength (calculate_correlation env_zero ''AAPL'' ''MSFT'' ''1y'') = ''Very Weak'' \<and>
   direction (calculate_correlation env_zero ''AAPL'' ''MSFT'' ''1y'') = Some ''Negative'' \<and>
   dbl (1 / 2) = 1 / 2 \<and>
   (dbl (4 / 10) \<le> \<bar>1 / 2\<bar>) = (4 / 10 \<le> \<bar>1 / 2 :: real\<bar>)"
proof -
  have a: "get_stock_price_data env_half ''AAPL'' ''1y'' = Some (ramp 1)"
    "get_stock_price_data env_half ''MSFT'' ''1y'' = Some (ramp 1)"
    "get_stock_price_data env_zero ''AAPL'' ''1y'' = Some (ramp 1)"
    "get_stock_price_data env_zero ''MSFT'' ''1y'' = Some (ramp 1)"
    by code_simp+
  have b: "30 \<le> length (combined_data (ramp 1) (ramp 1))"
    by code_simp
  have c: "series_corr env_half (dropna (pct_change (stock1 (combined_data (ramp 1) (ramp 1)))))
     (dropna (pct_change (stock2 (combined_data (ramp 1) (ramp 1))))) = Inr (Fl (1 / 2))"
    by (simp add: env_half_def)
  have d: "series_corr env_zero (dropna (pct_change (stock1 (combined_data (ramp 1) (ramp 1)))))
     (dropna (pct_change (stock2 (combined_data (ramp 1) (ramp 1))))) = Inr (Fl 0)"
    by (simp add: env_zero_def env_half_def)
  from a b c strength_direction_classification
    [where e = env_half and ?t1.0 = "''AAPL''" and ?t2.0 = "''MSFT''" and p = "''1y''"
       and ?d1.0 = "ramp 1" and ?d2.0 = "ramp 1" and c = "Fl (1 / 2)" and x = "1 / 2"]
  have h: "strength (calculate_correlation env_half ''AAPL'' ''MSFT'' ''1y'') = strength_of (Fl (1 / 2)) \<and>
      direction (calculate_correlation env_half ''AAPL'' ''MSFT'' ''1y'') = Some (direction_of (Fl (1 / 2)))"
    by blast
  from a b d strength_direction_classification
    [where e = env_zero and ?t1.0 = "''AAPL''" and ?t2.0 = "''MSFT''" and p = "''1y''"
       and ?d1.0 = "ramp 1" and ?d2.0 = "ramp 1" and c = "Fl 0" and x = 0]
  have z: "strength (calculate_correlation env_zero ''AAPL'' ''MSFT'' ''1y'') = strength_of (Fl 0) \<and>
      direction (calculate_correlation env_zero ''AAPL'' ''MSFT'' ''1y'') = Some (direction_of (Fl 0))"
    by blast
  have v: "strength_of (Fl (1 / 2)) = ''Moderate''" "direction_of (Fl (1 / 2)) = ''Positive''"
    "strength_of (Fl 0) = ''Very Weak''" "direction_of (Fl 0) = ''Negative''"
    by (simp_all add: strength_of_examples direction_of_def fgt_Fl)
  from dbl_half strength_direction_classification [where x = "1 / 2"]
  have w: "(dbl (4 / 10) \<le> \<bar>1 / 2\<bar>) = (4 / 10 \<le> \<bar>1 / 2 :: real\<bar>)"
    by blast
  from a b c d h z v have "get_stock_price_data env_half ''AAPL'' ''1y'' = Some (ramp 1) \<and>
   get_stock_price_data env_half ''MSFT'' ''1y'' = Some (ramp 1) \<and>
   30 \<le> length (combined_data (ramp 1) (ramp 1)) \<and>
   series_corr env_half (dropna (pct_change (stock1 (combined_data (ramp 1) (ramp 1)))))
     (dropna (pct_change (stock2 (combined_data (ramp 1) (ramp 1))))) = Inr (Fl (1 / 2)) \<and>
   strength (calculate_correlation env_half ''AAPL'' ''MSFT'' ''1y'') = ''Moderate'' \<and>
   direction (calculate_correlation env_half ''AAPL'' ''MSFT'' ''1y'') = Some ''Positive'' \<and>
   series_corr env_zero (dropna (pct_change (stock1 (combined_data (ramp 1) (ramp 1)))))
     (dropna (pct_change (stock2 (combined_data (ramp 1) (ramp 1))))) = Inr (Fl 0) \<and>
   strength (calculate_correlation env_zero ''AAPL'' ''MSFT'' ''1y'') = ''Very Weak'' \<and>
   direction (calculate_correlation env_zero ''AAPL'' ''MSFT'' ''1y'') = Some ''Negative''"
    by simp
  with dbl_half w show ?thesis by blast
qed




text \<open>
  C6. Every entry of \<^verbatim>\<open>related_stocks\<close> has a coefficient that differs from \<open>0.0\<close>:
  it is the reported coefficient of a candidate's correlation, so a sentinel (whose
  coefficient is \<open>0.0\<close>) never gives an entry, and neither does a computed coefficient
  that is reported as \<open>0.0\<close>. The strength of an entry is one of the five bands and
  its direction \<^verbatim>\<open>Positive\<close> or \<^verbatim>\<open>Negative\<close>.
\<close>

theorem related_stocks_nonzero:
  "\<forall>x \<in> set (related_stocks (analyze_stock_impact e p s)).
     fne (entry_correlation x) (Fl 0) \<and>
     entry_correlation x = correlation (calculate_correlation e p (ticker x) ''1y'') \<and>
     (ticker x, relationship_type x) \<in> set (all_related p s) \<and>
     entry_strength x \<in> {''Very Strong'', ''Strong'', ''Moderate'', ''Weak'', ''Very Weak''} \<and>
     entry_strength x \<notin> {''No Data'', ''Insufficient Data'', ''Error''} \<and>
     entry_direction x \<in> {''Positive'', ''Negative''}"
proof
  fix x
  assume "x \<in> set (related_stocks (analyze_stock_impact e p s))"
  from related_stocks_member [OF this] obtain stock category where
    m: "(stock, category) \<in> set (all_related p s)"
    and nz: "fne (correlation (calculate_correlation e p stock ''1y'')) (Fl 0)"
    and x: "x = make_entry stock category (calculate_correlation e p stock ''1y'')"
    by blast
  from nonzero_result_labels [OF nz] x m nz
  show "fne (entry_correlation x) (Fl 0) \<and>
     entry_correlation x = correlation (calculate_correlation e p (ticker x) ''1y'') \<and>
     (ticker x, relationship_type x) \<in> set (all_related p s) \<and>
     entry_strength x \<in> {''Very Strong'', ''Strong'', ''Moderate'', ''Weak'', ''Very Weak''} \<and>
     entry_strength x \<notin> {''No Data'', ''Insufficient Data'', ''Error''} \<and>
     entry_direction x \<in> {''Positive'', ''Negative''}"
    by (auto simp: make_entry_def)
qed

theorem related_stocks_nonzero_witness:
  "\<lparr>ticker = ''CRM'', relationship_type = ''sector_peers'',
     entry_correlation = Fl (dbl (- (333 / 1000))), entry_strength = ''Weak'',
     entry_direction = ''Negative'', impact_score = Fl (dbl (dbl (333 / 1000) * 100))\<rparr>
     \<in> set (related_stocks (analyze_stock_impact env_rank ''AAPL'' ''Technology'')) \<and>
   fne (Fl (dbl (- (333 / 1000)))) (Fl 0) \<and>
   Fl (dbl (- (333 / 1000))) = correlation (calculate_correlation env_rank ''AAPL'' ''CRM'' ''1y'') \<and>
   (''CRM'', ''sector_peers'') \<in> set (all_related ''AAPL'' ''Technology'') \<and>
   correlation (calculate_correlation env_zero ''AAPL'' ''MSFT'' ''1y'') = Fl 0 \<and>
   data_points (calculate_correlation env_zero ''AAPL'' ''MSFT'' ''1y'') = Some 29 \<and>
   related_stocks (analyze_stock_impact env_zero ''AAPL'' ''Technology'') = [] \<and>
   related_stocks (analyze_stock_impact env_down ''AAPL'' ''Technology'') = []"
proof -
  have a: "\<lparr>ticker = ''CRM'', relationship_type = ''sector_peers'',
     entry_correlation = Fl (dbl (- (333 / 1000))), entry_strength = ''Weak'',
     entry_direction = ''Negative'', impact_score = Fl (dbl (dbl (333 / 1000) * 100))\<rparr>
     \<in> set (related_stocks (analyze_stock_impact env_rank ''AAPL'' ''Technology''))"
    by (simp add: run_rank)
  have b: "correlation (calculate_correlation env_zero ''AAPL'' ''MSFT'' ''1y'') = Fl 0"
    "data_points (calculate_correlation env_zero ''AAPL'' ''MSFT'' ''1y'') = Some 29"
    "related_stocks (analyze_stock_impact env_zero ''AAPL'' ''Technology'') = []"
    "related_stocks (analyze_stock_impact env_down ''AAPL'' ''Technology'') = []"
    by code_simp+
  note t = related_stocks_nonzero [of env_rank "''AAPL''" "''Technology''", rule_format, OF a,
      unfolded entry.select_convs]
  from t have c: "fne (Fl (dbl (- (333 / 1000)))) (Fl 0) \<and>
   Fl (dbl (- (333 / 1000))) = correlation (calculate_correlation env_rank ''AAPL'' ''CRM'' ''1y'') \<and>
   (''CRM'', ''sector_peers'') \<in> set (all_related ''AAPL'' ''Technology'')"
    by blast
  from a b c show ?thesis by blast
qed

text \<open>
  C7, as stated: the market influence is \<^verbatim>\<open>Moderate\<close> when the average of the
  absolute coefficients is at least \<open>0.4\<close> and below \<open>0.6\<close>. The engine compares the
  mean that \<^verbatim>\<open>np.mean\<close> computes in double arithmetic, and that can fall below the
  average: six coefficients of \<open>0.4\<close> have the average \<open>0.4\<close> (the double, which is
  not below four tenths), their computed mean is \<open>0.39999999999999997\<close>, and the
  market influence is \<^verbatim>\<open>Low\<close>.
\<close>

theorem average_on_threshold_is_low:
  "map abs_key (related_stocks (analyze_stock_impact env_four ''AAPL'' ''Technology'')) =
     replicate 6 (Fl (dbl (4 / 10))) \<and>
   exact_average (replicate 6 (dbl (4 / 10))) = dbl (4 / 10) \<and>
   4 / 10 \<le> dbl (4 / 10) \<and> dbl (4 / 10) < dbl (6 / 10) \<and> dbl (4 / 10) < 6 / 10 \<and>
   market_influence (summary (analyze_stock_impact env_four ''AAPL'' ''Technology'')) = ''Low''"
proof -
  have "exact_average (replicate 6 (dbl (4 / 10))) = dbl (4 / 10)"
    by (simp add: exact_average_def sum_list_replicate)
  with run_four dbl_four show ?thesis by (simp add: Let_def)
qed

text \<open>
  C7, amended. When the analysis completes, \<^verbatim>\<open>total_analyzed\<close> is the number of
  entries; the market influence is \<^verbatim>\<open>Unknown\<close> exactly when there is no entry, and then
  the reported average and maximum are zero; otherwise it is \<^verbatim>\<open>High\<close> when the mean of
  the absolute coefficients that \<^verbatim>\<open>np.mean\<close> computes in double arithmetic is at least
  \<open>0.6\<close>, \<^verbatim>\<open>Moderate\<close> when it is at least \<open>0.4\<close> and not at least \<open>0.6\<close>, and \<^verbatim>\<open>Low\<close>
  otherwise. When the coefficients are numbers, the computed mean lies within sixteen
  roundings of their exact average. A ticker and sector without peers give a completed
  analysis with no entry, \<^verbatim>\<open>Unknown\<close> and \<^verbatim>\<open>total_analyzed\<close> zero.
\<close>

theorem market_influence_verdict:
  "(analyze_body e p s = Inr r \<longrightarrow>
      analyze_stock_impact e p s = r \<and>
      total_analyzed (summary r) = length (related_stocks r) \<and>
      (market_influence (summary r) = ''Unknown'') = (related_stocks r = []) \<and>
      (market_influence (summary r) = ''High'') =
        (related_stocks r \<noteq> [] \<and>
         fge (np_mean (map abs_key (related_stocks r))) (Fl (dbl (6 / 10)))) \<and>
      (market_influence (summary r) = ''Moderate'') =
        (related_stocks r \<noteq> [] \<and>
         fge (np_mean (map abs_key (related_stocks r))) (Fl (dbl (4 / 10))) \<and>
         \<not> fge (np_mean (map abs_key (related_stocks r))) (Fl (dbl (6 / 10)))) \<and>
      (market_influence (summary r) = ''Low'') =
        (related_stocks r \<noteq> [] \<and>
         \<not> fge (np_mean (map abs_key (related_stocks r))) (Fl (dbl (4 / 10)))) \<and>
      (related_stocks r = [] \<longrightarrow>
         total_analyzed (summary r) = 0 \<and> average_correlation (summary r) = Fl 0 \<and>
         max_correlation (summary r) = Fl 0) \<and>
      (related_stocks r \<noteq> [] \<and> (\<forall>x \<in> set (related_stocks r). is_number (entry_correlation x)) \<longrightarrow>
         (\<exists>m. np_mean (map abs_key (related_stocks r)) = Fl m \<and>
              (1 - eps) ^ 16 * exact_average (map magnitude (related_stocks r)) \<le> m \<and>
              m \<le> (1 + eps) ^ 16 * exact_average (map magnitude (related_stocks r))))) \<and>
   (find_sector_peers p s = [] \<longrightarrow>
      analyze_body e p s =
        Inr \<lparr>primary_ticker = p, related_stocks = [],
             summary = \<lparr>total_analyzed = 0, average_correlation = Fl 0, max_correlation = Fl 0,
                        market_influence = ''Unknown''\<rparr>,
             timestamp = Some (now e), error = None\<rparr> \<and>
      related_stocks (analyze_stock_impact e p s) = [] \<and>
      market_influence (summary (analyze_stock_impact e p s)) = ''Unknown'' \<and>
      total_analyzed (summary (analyze_stock_impact e p s)) = 0)"
proof (intro conjI impI)
  assume body: "analyze_body e p s = Inr r"
  then have sm: "summary r = summarize (related_stocks r)"
    by (auto simp: analyze_body_def Let_def split: sum.splits)
  from body show "analyze_stock_impact e p s = r"
    by (simp add: analyze_stock_impact_def)
  show "total_analyzed (summary r) = length (related_stocks r)"
    by (simp add: sm summarize_def Let_def)
  show "(market_influence (summary r) = ''Unknown'') = (related_stocks r = [])"
    by (simp add: sm summarize_influence)
  show "(market_influence (summary r) = ''High'') =
        (related_stocks r \<noteq> [] \<and>
         fge (np_mean (map abs_key (related_stocks r))) (Fl (dbl (6 / 10))))"
    by (simp only: sm summarize_influence)
  show "(market_influence (summary r) = ''Moderate'') =
        (related_stocks r \<noteq> [] \<and>
         fge (np_mean (map abs_key (related_stocks r))) (Fl (dbl (4 / 10))) \<and>
         \<not> fge (np_mean (map abs_key (related_stocks r))) (Fl (dbl (6 / 10))))"
    by (simp only: sm summarize_influence)
  show "(market_influence (summary r) = ''Low'') =
        (related_stocks r \<noteq> [] \<and>
         \<not> fge (np_mean (map abs_key (related_stocks r))) (Fl (dbl (4 / 10))))"
    by (simp only: sm summarize_influence)
  show "\<exists>m. np_mean (map abs_key (related_stocks r)) = Fl m \<and>
              (1 - eps) ^ 16 * exact_average (map magnitude (related_stocks r)) \<le> m \<and>
              m \<le> (1 + eps) ^ 16 * exact_average (map magnitude (related_stocks r))"
    if "related_stocks r \<noteq> [] \<and> (\<forall>x \<in> set (related_stocks r). is_number (entry_correlation x))"
    using that length_related_stocks [OF body] by (intro np_mean_entries) simp_all
  assume "related_stocks r = []"
  then show "total_analyzed (summary r) = 0" "average_correlation (summary r) = Fl 0"
    "max_correlation (summary r) = Fl 0"
    by (simp_all add: sm summarize_def)
next
  assume "find_sector_peers p s = []"
  then have "all_related p s = []" by (rule all_related_empty)
  then show b: "analyze_body e p s =
        Inr \<lparr>primary_ticker = p, related_stocks = [],
             summary = \<lparr>total_analyzed = 0, average_correlation = Fl 0, max_correlation = Fl 0,
                        market_influence = ''Unknown''\<rparr>,
             timestamp = Some (now e), error = None\<rparr>"
    by (simp add: analyze_body_def list_sort_desc_def sort_desc_def summarize_def)
  then show "related_stocks (analyze_stock_impact e p s) = []"
    "market_influence (summary (analyze_stock_impact e p s)) = ''Unknown''"
    "total_analyzed (summary (analyze_stock_impact e p s)) = 0"
    by (simp_all add: analyze_stock_impact_def)
qed

theorem market_influence_verdict_witness:
  "analyze_body env_nine ''AAPL'' ''Technology'' =
     Inr (analyze_stock_impact env_nine ''AAPL'' ''Technology'') \<and>
   map entry_correlation (related_stocks (analyze_stock_impact env_nine ''AAPL'' ''Technology'')) =
     replicate 13 (Fl (dbl (9 / 10))) \<and>
   market_influence (summary (analyze_stock_impact env_nine ''AAPL'' ''Technology'')) = ''High'' \<and>
   total_analyzed (summary (analyze_stock_impact env_nine ''AAPL'' ''Technology'')) = 13 \<and>
   fge (np_mean (map abs_key (related_stocks (analyze_stock_impact env_nine ''AAPL'' ''Technology''))))
     (Fl (dbl (6 / 10))) \<and>
   (\<exists>m. np_mean (map abs_key (related_stocks (analyze_stock_impact env_nine ''AAPL'' ''Technology''))) =
          Fl m \<and>
        (1 - eps) ^ 16 *
          exact_average (map magnitude (related_stocks (analyze_stock_impact env_nine ''AAPL'' ''Technology'')))
          \<le> m \<and>
        m \<le> (1 + eps) ^ 16 *
          exact_average (map magnitude (related_stocks (analyze_stock_impact env_nine ''AAPL'' ''Technology'')))) \<and>
   analyze_body env_six ''AAPL'' ''Technology'' =
     Inr (analyze_stock_impact env_six ''AAPL'' ''Technology'') \<and>
   market_influence (summary (analyze_stock_impact env_six ''AAPL'' ''Technology'')) = ''Moderate'' \<and>
   fge (np_mean (map abs_key (related_stocks (analyze_stock_impact env_six ''AAPL'' ''Technology''))))
     (Fl (dbl (4 / 10))) \<and>
   \<not> fge (np_mean (map abs_key (related_stocks (analyze_stock_impact env_six ''AAPL'' ''Technology''))))
     (Fl (dbl (6 / 10))) \<and>
   analyze_body env_four ''AAPL'' ''Technology'' =
     Inr (analyze_stock_impact env_four ''AAPL'' ''Technology'') \<and>
   map entry_correlation (related_stocks (analyze_stock_impact env_four ''AAPL'' ''Technology'')) =
     replicate 6 (Fl (dbl (4 / 10))) \<and>
   market_influence (summary (analyze_stock_impact env_four ''AAPL'' ''Technology'')) = ''Low'' \<and>
   total_analyzed (summary (analyze_stock_impact env_four ''AAPL'' ''Technology'')) = 6 \<and>
   \<not> fge (np_mean (map abs_key (related_stocks (analyze_stock_impact env_four ''AAPL'' ''Technology''))))
     (Fl (dbl (4 / 10))) \<and>
   find_sector_peers ''AAPL'' ''Crypto'' = [] \<and>
   related_stocks (analyze_stock_impact env_half ''AAPL'' ''Crypto'') = [] \<and>
   market_influence (summary (analyze_stock_impact env_half ''AAPL'' ''Crypto'')) = ''Unknown'' \<and>
   total_analyzed (summary (analyze_stock_impact env_half ''AAPL'' ''Crypto'')) = 0"
proof -
  let ?r9 = "analyze_stock_impact env_nine ''AAPL'' ''Technology''"
  let ?r6 = "analyze_stock_impact env_six ''AAPL'' ''Technology''"
  let ?r4 = "analyze_stock_impact env_four ''AAPL'' ''Technology''"
  have a9: "analyze_body env_nine ''AAPL'' ''Technology'' = Inr ?r9"
    by (rule completes) (simp add: env_nine_def env_half_def)
  have a6: "analyze_body env_six ''AAPL'' ''Technology'' = Inr ?r6"
    by (rule completes) (simp add: env_six_def env_half_def)
  have a4: "analyze_body env_four ''AAPL'' ''Technology'' = Inr ?r4"
    by (rule completes) (simp add: env_four_def env_half_def)
  from run_nine have c9: "map entry_correlation (related_stocks ?r9) = replicate 13 (Fl (dbl (9 / 10)))"
    and m9: "market_influence (summary ?r9) = ''High''"
    by (simp_all add: Let_def)
  from run_six have m6: "market_influence (summary ?r6) = ''Moderate''"
    by (simp add: Let_def)
  from run_four have c4: "map entry_correlation (related_stocks ?r4) = replicate 6 (Fl (dbl (4 / 10)))"
    and m4: "market_influence (summary ?r4) = ''Low''"
    by (simp_all add: Let_def)
  have f: "find_sector_peers ''AAPL'' ''Crypto'' = []"
    by code_simp
  from c9 have l9: "length (related_stocks ?r9) = 13"
    by (metis length_map length_replicate)
  then have ne9: "related_stocks ?r9 \<noteq> []" by auto
  have num9: "\<forall>x \<in> set (related_stocks ?r9). is_number (entry_correlation x)"
  proof
    fix x
    assume "x \<in> set (related_stocks ?r9)"
    then have "entry_correlation x \<in> set (map entry_correlation (related_stocks ?r9))" by simp
    then show "is_number (entry_correlation x)" by (simp only: c9) simp
  qed
  from c4 have l4: "length (related_stocks ?r4) = 6"
    by (metis length_map length_replicate)
  note t9 = market_influence_verdict [of env_nine "''AAPL''" "''Technology''" ?r9]
  note t6 = market_influence_verdict [of env_six "''AAPL''" "''Technology''" ?r6]
  note t4 = market_influence_verdict [of env_four "''AAPL''" "''Technology''" ?r4]
  note tc = market_influence_verdict [of env_half "''AAPL''" "''Crypto''"]
  from a9 m9 l9 t9 have h9: "total_analyzed (summary ?r9) = 13 \<and>
      fge (np_mean (map abs_key (related_stocks ?r9))) (Fl (dbl (6 / 10)))"
    by simp
  from a9 ne9 num9 t9 have e9: "\<exists>m. np_mean (map abs_key (related_stocks ?r9)) = Fl m \<and>
        (1 - eps) ^ 16 * exact_average (map magnitude (related_stocks ?r9)) \<le> m \<and>
        m \<le> (1 + eps) ^ 16 * exact_average (map magnitude (related_stocks ?r9))"
    by blast
  from a6 m6 t6 have h6: "fge (np_mean (map abs_key (related_stocks ?r6))) (Fl (dbl (4 / 10))) \<and>
      \<not> fge (np_mean (map abs_key (related_stocks ?r6))) (Fl (dbl (6 / 10)))"
    by simp
  from a4 m4 l4 t4 have h4: "total_analyzed (summary ?r4) = 6 \<and>
      \<not> fge (np_mean (map abs_key (related_stocks ?r4))) (Fl (dbl (4 / 10)))"
    by simp
  from f tc have hc: "related_stocks (analyze_stock_impact env_half ''AAPL'' ''Crypto'') = [] \<and>
   market_influence (summary (analyze_stock_impact env_half ''AAPL'' ''Crypto'')) = ''Unknown'' \<and>
   total_analyzed (summary (analyze_stock_impact env_half ''AAPL'' ''Crypto'')) = 0"
    by blast
  from a9 c9 m9 h9 e9 a6 m6 h6 a4 c4 m4 h4 f hc show ?thesis by blast
qed

text \<open>
  C8. When the price provider raises or returns an empty frame for either ticker,
  \<^verbatim>\<open>calculate_correlation\<close> returns the \<^verbatim>\<open>No Data\<close> sentinel, with coefficient \<open>0.0\<close>,
  and no exception leaves the body. An exception that does leave the body of the
  \<^verbatim>\<open>try\<close> block is turned into the \<^verbatim>\<open>Error\<close> sentinel, so the function returns a
  result on every input.
\<close>

theorem no_data_sentinel:
  "((\<exists>ex. history e t1 p = Inl ex) \<or> history e t1 p = Inr [] \<or>
    (\<exists>ex. history e t2 p = Inl ex) \<or> history e t2 p = Inr [] \<longrightarrow>
      calculate_correlation_body e t1 t2 p = Inr (sentinel ''No Data'') \<and>
      calculate_correlation e t1 t2 p =
        \<lparr>correlation = Fl 0, strength = ''No Data'', direction = None, data_points = None,
         p_value = Some (Fl 1)\<rparr>) \<and>
   (calculate_correlation_body e t1 t2 p = Inl ex \<longrightarrow>
      calculate_correlation e t1 t2 p =
        \<lparr>correlation = Fl 0, strength = ''Error'', direction = None, data_points = None,
         p_value = Some (Fl 1)\<rparr>)"
proof (intro conjI impI)
  assume "(\<exists>ex. history e t1 p = Inl ex) \<or> history e t1 p = Inr [] \<or>
    (\<exists>ex. history e t2 p = Inl ex) \<or> history e t2 p = Inr []"
  then have none: "get_stock_price_data e t1 p = None \<or> get_stock_price_data e t2 p = None"
    by (auto simp: get_stock_price_data_None)
  then show body: "calculate_correlation_body e t1 t2 p = Inr (sentinel ''No Data'')"
    by (auto simp: calculate_correlation_body_def split: option.splits)
  then show "calculate_correlation e t1 t2 p =
        \<lparr>correlation = Fl 0, strength = ''No Data'', direction = None, data_points = None,
         p_value = Some (Fl 1)\<rparr>"
    by (simp add: calculate_correlation_def sentinel_def)
next
  assume "calculate_correlation_body e t1 t2 p = Inl ex"
  then show "calculate_correlation e t1 t2 p =
        \<lparr>correlation = Fl 0, strength = ''Error'', direction = None, data_points = None,
         p_value = Some (Fl 1)\<rparr>"
    by (simp add: calculate_correlation_def sentinel_def)
qed

theorem no_data_sentinel_witness:
  "history env_down ''AAPL'' ''1y'' = Inl (PyException ''connection refused'') \<and>
   calculate_correlation env_down ''AAPL'' ''MSFT'' ''1y'' =
     \<lparr>correlation = Fl 0, strength = ''No Data'', direction = None, data_points = None,
      p_value = Some (Fl 1)\<rparr> \<and>
   calculate_correlation_body env_broken ''AAPL'' ''MSFT'' ''1y'' =
     Inl (PyException ''unsupported operand'') \<and>
   calculate_correlation env_broken ''AAPL'' ''MSFT'' ''1y'' =
     \<lparr>correlation = Fl 0, strength = ''Error'', direction = None, data_points = None,
      p_value = Some (Fl 1)\<rparr>"
proof -
  have a: "history env_down ''AAPL'' ''1y'' = Inl (PyException ''connection refused'')"
    by (simp add: env_down_def)
  have b: "calculate_correlation_body env_broken ''AAPL'' ''MSFT'' ''1y'' =
     Inl (PyException ''unsupported operand'')"
    by code_simp
  from a no_data_sentinel [of env_down "''AAPL''" "''1y''" "''MSFT''"]
  have c: "calculate_correlation env_down ''AAPL'' ''MSFT'' ''1y'' =
     \<lparr>correlation = Fl 0, strength = ''No Data'', direction = None, data_points = None,
      p_value = Some (Fl 1)\<rparr>"
    by blast
  from b no_data_sentinel [of env_broken "''AAPL''" "''1y''" "''MSFT''" "PyException ''unsupported operand''"]
  have d: "calculate_correlation env_broken ''AAPL'' ''MSFT'' ''1y'' =
     \<lparr>correlation = Fl 0, strength = ''Error'', direction = None, data_points = None,
      p_value = Some (Fl 1)\<rparr>"
    by blast
  from a b c d show ?thesis by blast
qed

text \<open>
  C9, as stated: every result of \<^verbatim>\<open>analyze_stock_impact\<close>, the error state included,
  carries a timestamp. The dictionary of the \<^verbatim>\<open>except\<close> branch has the keys
  \<^verbatim>\<open>primary_ticker\<close>, \<^verbatim>\<open>related_stocks\<close>, \<^verbatim>\<open>summary\<close> and \<^verbatim>\<open>error\<close>, and no
  \<^verbatim>\<open>timestamp\<close>.
\<close>

theorem error_state_without_timestamp:
  "timestamp (analyze_stock_impact env_busy ''AAPL'' ''Technology'') = None \<and>
   error (analyze_stock_impact env_busy ''AAPL'' ''Technology'') =
     Some (PyException ''cannot schedule new futures after interpreter shutdown'')"
  by code_simp

text \<open>
  C9, amended. Every result carries the primary ticker (with the related stocks and
  the summary). The result of an analysis that completes carries the timestamp and no
  \<^verbatim>\<open>error\<close>; the error state carries the exception under \<^verbatim>\<open>error\<close> and no timestamp.
\<close>

theorem timestamp_on_success:
  "primary_ticker (analyze_stock_impact e p s) = p \<and>
   (analyze_body e p s = Inr r \<longrightarrow>
      timestamp (analyze_stock_impact e p s) = Some (now e) \<and>
      error (analyze_stock_impact e p s) = None) \<and>
   (analyze_body e p s = Inl ex \<longrightarrow>
      timestamp (analyze_stock_impact e p s) = None \<and>
      error (analyze_stock_impact e p s) = Some ex)"
  by (auto simp: analyze_stock_impact_def analyze_body_def error_result_def Let_def
      split: sum.splits)

theorem timestamp_on_success_witness:
  "analyze_body env_half ''AAPL'' ''Technology'' =
     Inr (analyze_stock_impact env_half ''AAPL'' ''Technology'') \<and>
   timestamp (analyze_stock_impact env_half ''AAPL'' ''Technology'') = Some ''2024-05-01T09:30:00'' \<and>
   error (analyze_stock_impact env_half ''AAPL'' ''Technology'') = None \<and>
   analyze_body env_busy ''TCS.NS'' ''Technology'' =
     Inl (PyException ''cannot schedule new futures after interpreter shutdown'') \<and>
   timestamp (analyze_stock_impact env_busy ''TCS.NS'' ''Technology'') = None \<and>
   error (analyze_stock_impact env_busy ''TCS.NS'' ''Technology'') =
     Some (PyException ''cannot schedule new futures after interpreter shutdown'')"
proof -
  have a: "analyze_body env_half ''AAPL'' ''Technology'' =
     Inr (analyze_stock_impact env_half ''AAPL'' ''Technology'')"
    by (rule completes) (simp add: env_half_def)
  have b: "analyze_body env_busy ''TCS.NS'' ''Technology'' =
     Inl (PyException ''cannot schedule new futures after interpreter shutdown'')"
    by code_simp
  have n: "now env_half = ''2024-05-01T09:30:00''"
    by (simp add: env_half_def)
  from a timestamp_on_success [of env_half "''AAPL''" "''Technology''"
      "analyze_stock_impact env_half ''AAPL'' ''Technology''"]
  have c: "timestamp (analyze_stock_impact env_half ''AAPL'' ''Technology'') = Some (now env_half) \<and>
      error (analyze_stock_impact env_half ''AAPL'' ''Technology'') = None"
    by blast
  from b timestamp_on_success [of env_busy "''TCS.NS''" "''Technology''" _
      "PyException ''cannot schedule new futures after interpreter shutdown''"]
  have d: "timestamp (analyze_stock_impact env_busy ''TCS.NS'' ''Technology'') = None \<and>
   error (analyze_stock_impact env_busy ''TCS.NS'' ''Technology'') =
     Some (PyException ''cannot schedule new futures after interpreter shutdown'')"
    by blast
  from a b c d n show ?thesis by simp
qed

text \<open>
  C10. A result of \<^verbatim>\<open>calculate_correlation\<close> whose strength is \<^verbatim>\<open>No Data\<close>,
  \<^verbatim>\<open>Insufficient Data\<close> or \<^verbatim>\<open>Error\<close> holds the coefficient \<open>0.0\<close>, that label and
  \<^verbatim>\<open>p_value\<close> \<open>1.0\<close>, and neither \<^verbatim>\<open>direction\<close> nor \<^verbatim>\<open>data_points\<close>; every other
  result holds \<^verbatim>\<open>direction\<close> and \<^verbatim>\<open>data_points\<close> and no \<^verbatim>\<open>p_value\<close>. For a
  correlation dictionary without \<^verbatim>\<open>direction\<close> the analyzer records the direction
  \<^verbatim>\<open>Neutral\<close>.
\<close>

theorem sentinel_shape:
  "(strength (calculate_correlation e t1 t2 p) \<in> {''No Data'', ''Insufficient Data'', ''Error''} \<longrightarrow>
      correlation (calculate_correlation e t1 t2 p) = Fl 0 \<and>
      p_value (calculate_correlation e t1 t2 p) = Some (Fl 1) \<and>
      direction (calculate_correlation e t1 t2 p) = None \<and>
      data_points (calculate_correlation e t1 t2 p) = None) \<and>
   (strength (calculate_correlation e t1 t2 p) \<notin> {''No Data'', ''Insufficient Data'', ''Error''} \<longrightarrow>
      direction (calculate_correlation e t1 t2 p) \<noteq> None \<and>
      data_points (calculate_correlation e t1 t2 p) \<noteq> None \<and>
      p_value (calculate_correlation e t1 t2 p) = None) \<and>
   (direction correlation_data = None \<longrightarrow>
      entry_direction (make_entry stock category correlation_data) = ''Neutral'')"
proof (intro conjI)
  show "strength (calculate_correlation e t1 t2 p) \<in> {''No Data'', ''Insufficient Data'', ''Error''} \<longrightarrow>
      correlation (calculate_correlation e t1 t2 p) = Fl 0 \<and>
      p_value (calculate_correlation e t1 t2 p) = Some (Fl 1) \<and>
      direction (calculate_correlation e t1 t2 p) = None \<and>
      data_points (calculate_correlation e t1 t2 p) = None"
  proof (cases rule: calculate_correlation_cases [of e t1 p t2])
    case (computed d1 d2 c)
    then show ?thesis using strength_of_not_sentinel [of c] by simp
  qed (simp_all add: sentinel_def)
  show "strength (calculate_correlation e t1 t2 p) \<notin> {''No Data'', ''Insufficient Data'', ''Error''} \<longrightarrow>
      direction (calculate_correlation e t1 t2 p) \<noteq> None \<and>
      data_points (calculate_correlation e t1 t2 p) \<noteq> None \<and>
      p_value (calculate_correlation e t1 t2 p) = None"
    by (cases rule: calculate_correlation_cases [of e t1 p t2]) (simp_all add: sentinel_def)
  show "direction correlation_data = None \<longrightarrow>
      entry_direction (make_entry stock category correlation_data) = ''Neutral''"
    by (simp add: make_entry_def)
qed

theorem sentinel_shape_witness:
  "strength (calculate_correlation env_down ''AAPL'' ''MSFT'' ''1y'')
     \<in> {''No Data'', ''Insufficient Data'', ''Error''} \<and>
   correlation (calculate_correlation env_down ''AAPL'' ''MSFT'' ''1y'') = Fl 0 \<and>
   p_value (calculate_correlation env_down ''AAPL'' ''MSFT'' ''1y'') = Some (Fl 1) \<and>
   direction (calculate_correlation env_down ''AAPL'' ''MSFT'' ''1y'') = None \<and>
   data_points (calculate_correlation env_down ''AAPL'' ''MSFT'' ''1y'') = None \<and>
   strength (calculate_correlation env_half ''AAPL'' ''MSFT'' ''1y'')
     \<notin> {''No Data'', ''Insufficient Data'', ''Error''} \<and>
   direction (calculate_correlation env_half ''AAPL'' ''MSFT'' ''1y'') \<noteq> None \<and>
   data_points (calculate_correlation env_half ''AAPL'' ''MSFT'' ''1y'') \<noteq> None \<and>
   p_value (calculate_correlation env_half ''AAPL'' ''MSFT'' ''1y'') = None \<and>
   direction (sentinel ''No Data'') = None \<and>
   entry_direction (make_entry ''MSFT'' ''sector_peers'' (sentinel ''No Data'')) = ''Neutral''"
proof -
  have a: "strength (calculate_correlation env_down ''AAPL'' ''MSFT'' ''1y'')
     \<in> {''No Data'', ''Insufficient Data'', ''Error''}"
    by code_simp
  have b: "strength (calculate_correlation env_half ''AAPL'' ''MSFT'' ''1y'')
     \<notin> {''No Data'', ''Insufficient Data'', ''Error''}"
    by code_simp
  have c: "direction (sentinel ''No Data'') = None"
    by (simp add: sentinel_def)
  note d = sentinel_shape [of env_down "''AAPL''" "''MSFT''" "''1y''" "sentinel ''No Data''"
      "''MSFT''" "''sector_peers''"]
  note e = sentinel_shape [of env_half "''AAPL''" "''MSFT''" "''1y''" "sentinel ''No Data''"
      "''MSFT''" "''sector_peers''"]
  from a b c d e show ?thesis by blast
qed

end
